theory Spec2Isabelle
  imports Main "HOL-Library.Char_ord" "HOL-Library.List_Lexorder" "HOL-Library.AList"
begin

section \<open>JavaScript values used by the server\<close>

text \<open>
  The server is an Express application (\<^verbatim>\<open>src/index.js\<close>, serving firmware from the local
  file system; a second variant of the same file, serving from a public S3 bucket, follows the
  documentation in \<^verbatim>\<open>src/README.md\<close>). Strings are \<open>string\<close>; the order on them is the
  lexicographic order on character codes, which is what JavaScript's \<^verbatim>\<open><\<close> on two strings
  and the default \<^verbatim>\<open>Array.prototype.sort\<close> compare by. A request parameter, a header or a
  body field that may be missing is a \<open>string option\<close> (\<open>None\<close> is \<^verbatim>\<open>undefined\<close>); the
  parameters are taken single-valued, strings as the handlers treat them.
\<close>

text \<open>A number as JavaScript has it here: an integer, or \<^verbatim>\<open>NaN\<close> (what \<^verbatim>\<open>parseInt\<close>
  returns on a string with no leading digits).\<close>

datatype jsnum = Fin int | NaN

datatype jv = JUndefined | JNull | JBool bool | JNum jsnum | JStr string | JArr "jv list"

text \<open>\<^verbatim>\<open>!x\<close> on a value that is a string or \<^verbatim>\<open>undefined\<close>: only \<^verbatim>\<open>undefined\<close> and the
  empty string are falsy.\<close>

fun truthy :: "string option \<Rightarrow> bool" where
  "truthy None = False"
| "truthy (Some s) = (s \<noteq> [])"

fun falsy :: "string option \<Rightarrow> bool" where
  "falsy None = True"
| "falsy (Some s) = (s = [])"

text \<open>\<^verbatim>\<open>a || b\<close> on such values.\<close>

definition or_else :: "string option \<Rightarrow> string option \<Rightarrow> string option" where
  "or_else a b = (if truthy a then a else b)"

text \<open>A value inside a template literal: \<^verbatim>\<open>undefined\<close> prints as the word.\<close>

fun template :: "string option \<Rightarrow> string" where
  "template None = ''undefined''"
| "template (Some s) = s"

text \<open>\<^verbatim>\<open>s.split(sep)\<close> for a one-character separator: the pieces between the separators,
  empty pieces kept, so the result is never empty.\<close>

fun split :: "char \<Rightarrow> string \<Rightarrow> string list" where
  "split sep [] = [[]]"
| "split sep (c # cs) =
     (if c = sep then [] # split sep cs
      else (case split sep cs of
              [] \<Rightarrow> [[c]]
            | p # ps \<Rightarrow> (c # p) # ps))"

text \<open>\<^verbatim>\<open>String.prototype.toLowerCase\<close> on the characters a header can hold (Node decodes
  header bytes as Latin-1): the letters A to Z, and the accented capitals 0xC0 to 0xDE other
  than the multiplication sign 0xD7, move up by 32.\<close>

definition toLowerCase_char :: "char \<Rightarrow> char" where
  "toLowerCase_char c =
     (let n = (of_char c :: nat)
      in if (65 \<le> n \<and> n \<le> 90) \<or> (192 \<le> n \<and> n \<le> 222 \<and> n \<noteq> 215)
         then char_of (n + 32) else c)"

definition toLowerCase :: "string \<Rightarrow> string" where
  "toLowerCase s = map toLowerCase_char s"

section \<open>Responses\<close>

text \<open>What a handler sends: \<^verbatim>\<open>res.status(n).json({...})\<close> with the body's keys in the order
  written (200 when no status is set); \<^verbatim>\<open>res.sendFile\<close> with the two headers set before it;
  \<^verbatim>\<open>res.redirect\<close>; and \<open>Uncaught\<close>, an exception that leaves the handler, which Express
  answers with status 500.\<close>

record device_record =
  last_check :: string
  current_version :: string
  rssi :: "jsnum option"

datatype response =
    Json nat "(string \<times> jv) list"
  | DevicesJson nat "(string \<times> device_record) list"
  | SendFile string string string
  | Redirect string
  | Uncaught

fun status_of :: "response \<Rightarrow> nat" where
  "status_of (Json n b) = n"
| "status_of (DevicesJson n ds) = 200"
| "status_of (SendFile p ct cd) = 200"
| "status_of (Redirect u) = 302"
| "status_of Uncaught = 500"

text \<open>One key of a JSON body (\<open>None\<close> when the response has no such key).\<close>

fun json_field :: "string \<Rightarrow> response \<Rightarrow> jv option" where
  "json_field k (Json n b) = map_of b k"
| "json_field k r = None"

section \<open>Authentication middleware\<close>

definition VALID_API_KEYS :: "string list" where
  "VALID_API_KEYS = [''test123'', ''prod456'']"

datatype auth = Rejected response | Next_with string

text \<open>\<^verbatim>\<open>verifyApiKey\<close>: the argument is \<^verbatim>\<open>req.headers.authorization\<close>; \<open>Next_with k\<close> is
  \<^verbatim>\<open>req.apiKey = k; next()\<close>. After the length test \<^verbatim>\<open>parts\<close> has two elements.\<close>

definition verifyApiKey :: "string option \<Rightarrow> auth" where
  "verifyApiKey authorization =
     (if \<not> truthy authorization
      then Rejected (Json 401 [(''detail'', JStr ''No authorization header'')])
      else
        (case split CHR '' '' (template authorization) of
           [p0, p1] \<Rightarrow>
             if toLowerCase p0 \<noteq> ''bearer''
             then Rejected (Json 401 [(''detail'', JStr ''Invalid authorization format'')])
             else if p1 \<notin> set VALID_API_KEYS
             then Rejected (Json 403 [(''detail'', JStr ''Invalid API key'')])
             else Next_with p1
         | _ \<Rightarrow> Rejected (Json 401 [(''detail'', JStr ''Invalid authorization format'')])))"


section \<open>Objects used as dictionaries\<close>

text \<open>
  \<^verbatim>\<open>AVAILABLE_FIRMWARE\<close> and \<^verbatim>\<open>devicesDb\<close> are plain object literals, so their prototype
  is \<^verbatim>\<open>Object.prototype\<close>. An object is the association list of its own properties, in
  the order in which they were created. Reading \<^verbatim>\<open>obj[k]\<close> finds an own property first and then the
  properties every object inherits, whose names are listed here; all of those are functions
  or objects, hence truthy.
\<close>

definition Object_prototype_names :: "string list" where
  "Object_prototype_names =
     [''constructor'', ''__defineGetter__'', ''__defineSetter__'', ''hasOwnProperty'',
      ''__lookupGetter__'', ''__lookupSetter__'', ''isPrototypeOf'',
      ''propertyIsEnumerable'', ''toString'', ''valueOf'', ''__proto__'',
      ''toLocaleString'']"

datatype 'a property = Own 'a | Inherited | Absent

definition get_property :: "(string \<times> 'a) list \<Rightarrow> string \<Rightarrow> 'a property" where
  "get_property obj k =
     (case map_of obj k of
        Some v \<Rightarrow> Own v
      | None \<Rightarrow> if k \<in> set Object_prototype_names then Inherited else Absent)"

text \<open>\<^verbatim>\<open>obj[k] = v\<close> with \<open>v\<close> an object: an own property is created or overwritten in
  place, except for the key \<^verbatim>\<open>__proto__\<close>, whose inherited setter replaces the prototype
  and creates no own property (no handler reads the prototype of \<^verbatim>\<open>devicesDb\<close>).\<close>

definition set_property :: "(string \<times> 'a) list \<Rightarrow> string \<Rightarrow> 'a \<Rightarrow> (string \<times> 'a) list" where
  "set_property obj k v = (if k = ''__proto__'' then obj else AList.update k v obj)"

text \<open>
  The order in which JavaScript enumerates the own properties of an object
  (\<^verbatim>\<open>Object.keys\<close>, \<^verbatim>\<open>JSON.stringify\<close>): first the keys that are array indices, in
  ascending numeric order, then all other keys in the order of their creation. An array
  index is the decimal numeral, without a leading zero, of an integer from 0 to
  \<open>2\<^sup>3\<^sup>2 - 2\<close>.
\<close>

definition is_digit :: "char \<Rightarrow> bool" where
  "is_digit c = (CHR ''0'' \<le> c \<and> c \<le> CHR ''9'')"

definition decimal_value :: "string \<Rightarrow> nat" where
  "decimal_value s = foldl (\<lambda>n c. 10 * n + (of_char c - 48)) 0 s"

fun is_array_index :: "string \<Rightarrow> bool" where
  "is_array_index [] = False"
| "is_array_index (c # cs) =
     (list_all is_digit (c # cs) \<and> (cs = [] \<or> c \<noteq> CHR ''0'')
      \<and> decimal_value (c # cs) < 4294967295)"

definition Object_entries :: "(string \<times> 'a) list \<Rightarrow> (string \<times> 'a) list" where
  "Object_entries obj =
     sort_key (\<lambda>p. decimal_value (fst p)) (filter (\<lambda>p. is_array_index (fst p)) obj)
     @ filter (\<lambda>p. \<not> is_array_index (fst p)) obj"

definition Object_keys :: "(string \<times> 'a) list \<Rightarrow> string list" where
  "Object_keys obj = map fst (Object_entries obj)"

section \<open>Server state\<close>

record firmware =
  filename :: string
  release_date :: string
  changelog :: string
  mandatory :: bool

record server_state =
  AVAILABLE_FIRMWARE :: "(string \<times> firmware) list"
  devicesDb :: "(string \<times> device_record) list"

text \<open>The catalog \<^verbatim>\<open>src/index.js\<close> starts with.\<close>

definition initial_firmware :: "(string \<times> firmware) list" where
  "initial_firmware =
     [(''2.2.0'', \<lparr>filename = ''meril_01.ino.esp32_v2_2.bin'', release_date = ''2026-01-15'',
                   changelog = ''Initial release'', mandatory = False\<rparr>),
      (''2.3.0'', \<lparr>filename = ''sketch_feb14a_v2_3.ino.bin'', release_date = ''2026-02-14'',
                   changelog = ''Updated version'', mandatory = False\<rparr>)]"

text \<open>The catalog the S3 variant starts with.\<close>

definition initial_firmware_s3 :: "(string \<times> firmware) list" where
  "initial_firmware_s3 =
     [(''2.2.0'', \<lparr>filename = ''meril_01.ino.esp32_v2_2.bin'', release_date = ''2026-01-15'',
                   changelog = ''Initial release'', mandatory = False\<rparr>),
      (''2.3.0'', \<lparr>filename = ''sketch_feb14a_v2_3.ino.bin'', release_date = ''2026-02-14'',
                   changelog = ''Updated version'', mandatory = True\<rparr>),
      (''3.1.0'', \<lparr>filename = ''sketch_feb16_3_1.ino.esp32.bin'', release_date = ''2026-02-16'',
                   changelog = ''New features and improvements'', mandatory = False\<rparr>)]"

definition initial_state :: server_state where
  "initial_state = \<lparr>AVAILABLE_FIRMWARE = initial_firmware, devicesDb = []\<rparr>"

definition initial_state_s3 :: server_state where
  "initial_state_s3 = \<lparr>AVAILABLE_FIRMWARE = initial_firmware_s3, devicesDb = []\<rparr>"

section \<open>The world outside the server\<close>

text \<open>
  What a request reads from outside the process, as it stands while the request runs: the
  clock (\<open>now\<close> is \<^verbatim>\<open>new Date().toISOString()\<close>), the file system of the local variant
  (\<open>readFileSync\<close> and \<open>statSync_size\<close> are \<open>None\<close> where Node throws), the answers of
  the S3 bucket, and the library functions \<^verbatim>\<open>parseInt\<close>, \<^verbatim>\<open>path.join\<close> and the MD5 digest
  in hexadecimal, which are not code of this repository.
\<close>

datatype head_outcome =
    HeadResponse nat "string option" "string option"
  | HeadError

datatype get_outcome =
    GetResponse nat "string list" bool
  | GetError

record env =
  now :: string
  parseInt :: "string \<Rightarrow> jsnum"
  md5_hex :: "string \<Rightarrow> string"
  path_join :: "string \<Rightarrow> string \<Rightarrow> string"
  FIRMWARE_DIR :: string
  existsSync :: "string \<Rightarrow> bool"
  readFileSync :: "string \<Rightarrow> string option"
  statSync_size :: "string \<Rightarrow> nat option"
  https_head :: "string \<Rightarrow> head_outcome"
  https_get :: "string \<Rightarrow> get_outcome"

text \<open>The calls a handler makes to the blob store, in the order it makes them.\<close>

datatype io_call =
    ExistsSync string
  | ReadFileSync string
  | StatSync string
  | HttpsHead string
  | HttpsGet string

section \<open>Requests\<close>

record headers =
  authorization :: "string option"
  x_forwarded_proto :: "string option"
  x_forwarded_host :: "string option"
  host :: "string option"

text \<open>\<^verbatim>\<open>req.query\<close> of the check endpoint and \<^verbatim>\<open>req.body\<close> of the release endpoint.\<close>

record check_query =
  q_device :: "string option"
  q_version :: "string option"
  q_model :: "string option"
  q_rssi :: "string option"

record release_body =
  b_version :: "string option"
  b_filename :: "string option"
  b_changelog :: "string option"
  b_mandatory :: "bool option"

section \<open>Utility functions\<close>

text \<open>\<^verbatim>\<open>calculateMd5\<close> and \<^verbatim>\<open>getFileSize\<close> of \<^verbatim>\<open>src/index.js\<close>; \<open>None\<close> is the exception of
  the file read or of \<^verbatim>\<open>statSync\<close>.\<close>

definition calculateMd5 :: "env \<Rightarrow> string \<Rightarrow> string option" where
  "calculateMd5 e filepath = map_option (md5_hex e) (readFileSync e filepath)"

definition getFileSize :: "env \<Rightarrow> string \<Rightarrow> nat option" where
  "getFileSize e filepath = statSync_size e filepath"

text \<open>The S3 variant.\<close>

definition S3_BUCKET :: string where
  "S3_BUCKET = ''esp32--firmware''"

definition S3_REGION :: string where
  "S3_REGION = ''us-east-1''"

definition S3_BASE_URL :: string where
  "S3_BASE_URL = ''https://'' @ S3_BUCKET @ ''.s3.'' @ S3_REGION @ ''.amazonaws.com''"

definition getS3Url :: "string \<Rightarrow> string" where
  "getS3Url fname = S3_BASE_URL @ ''/'' @ fname"

record metadata =
  m_exists :: bool
  m_size :: "jsnum option"
  m_etag :: "string option"

text \<open>\<^verbatim>\<open>checkS3File\<close>: a HEAD request. Status 200 resolves to the size and the tag; any other
  status, and an error of the request, both resolve to \<^verbatim>\<open>{ exists: false }\<close>. The promise is
  never rejected.\<close>

definition checkS3File :: "env \<Rightarrow> string \<Rightarrow> metadata" where
  "checkS3File e fname =
     (case https_head e (getS3Url fname) of
        HeadResponse statusCode content_length etag \<Rightarrow>
          if statusCode = 200
          then \<lparr>m_exists = True,
                m_size = Some (parseInt e (template (or_else content_length (Some ''0'')))),
                m_etag = map_option (filter (\<lambda>c. c \<noteq> CHR 0x22)) etag\<rparr>
          else \<lparr>m_exists = False, m_size = None, m_etag = None\<rparr>
      | HeadError \<Rightarrow> \<lparr>m_exists = False, m_size = None, m_etag = None\<rparr>)"

text \<open>\<^verbatim>\<open>calculateS3Md5\<close>: a GET request; the digest of the chunks received. \<open>None\<close> is the
  rejected promise: a status other than 200, an error of the request, or an error of the
  response stream (\<open>GetResponse s chunks False\<close>).\<close>

definition calculateS3Md5 :: "env \<Rightarrow> string \<Rightarrow> string option" where
  "calculateS3Md5 e fname =
     (case https_get e (getS3Url fname) of
        GetResponse statusCode chunks ended \<Rightarrow>
          if statusCode \<noteq> 200 then None
          else if ended then Some (md5_hex e (concat chunks))
          else None
      | GetError \<Rightarrow> None)"

section \<open>The check endpoint\<close>

text \<open>\<^verbatim>\<open>devicesDb[device] = {last_check, current_version, rssi}\<close>, with
  \<^verbatim>\<open>rssi ? parseInt(rssi) : null\<close> (\<open>None\<close> is \<^verbatim>\<open>null\<close>).\<close>

definition store_device_info :: "env \<Rightarrow> check_query \<Rightarrow> server_state \<Rightarrow> server_state" where
  "store_device_info e q st =
     st\<lparr>devicesDb :=
          set_property (devicesDb st) (template (q_device q))
            \<lparr>last_check = now e,
             current_version = template (q_version q),
             rssi = (if truthy (q_rssi q) then Some (parseInt e (template (q_rssi q)))
                     else None)\<rparr>\<rparr>"

text \<open>\<^verbatim>\<open>versions = Object.keys(AVAILABLE_FIRMWARE).sort(); versions[versions.length - 1]\<close>:
  \<^verbatim>\<open>undefined\<close> on an empty catalog.\<close>

definition latestVersion_of :: "(string \<times> firmware) list \<Rightarrow> string option" where
  "latestVersion_of catalog =
     (let versions = sort (Object_keys catalog)
      in if versions = [] then None else Some (last versions))"

text \<open>\<^verbatim>\<open>version < latestVersion\<close>: the string comparison; false against \<^verbatim>\<open>undefined\<close>.\<close>

fun needsUpdate_of :: "string \<Rightarrow> string option \<Rightarrow> bool" where
  "needsUpdate_of version None = False"
| "needsUpdate_of version (Some latestVersion) = (version < latestVersion)"

fun jv_of :: "string option \<Rightarrow> jv" where
  "jv_of None = JUndefined"
| "jv_of (Some s) = JStr s"

fun jv_of_num :: "jsnum option \<Rightarrow> jv" where
  "jv_of_num None = JUndefined"
| "jv_of_num (Some n) = JNum n"

definition up_to_date_body :: "string option \<Rightarrow> (string \<times> jv) list" where
  "up_to_date_body latestVersion =
     [(''update_available'', JBool False),
      (''latest_version'', jv_of latestVersion),
      (''download_url'', JStr []),
      (''checksum'', JStr []),
      (''mandatory'', JBool False)]"

definition update_body ::
  "string option \<Rightarrow> string \<Rightarrow> string \<Rightarrow> firmware \<Rightarrow> jv \<Rightarrow> (string \<times> jv) list" where
  "update_body latestVersion downloadUrl checksum latestInfo fileSize =
     [(''update_available'', JBool True),
      (''latest_version'', jv_of latestVersion),
      (''download_url'', JStr downloadUrl),
      (''checksum'', JStr checksum),
      (''mandatory'', JBool (mandatory latestInfo)),
      (''changelog'', JStr (changelog latestInfo)),
      (''file_size'', fileSize)]"

text \<open>
  The handler of \<^verbatim>\<open>GET /api/v1/firmware/check\<close> in \<^verbatim>\<open>src/index.js\<close>, after the middleware.
  It returns the response, the state and the blob-store calls made. \<open>latestInfo\<close> is read
  at a key of the catalog, so it is an own property; where it is missing the property read
  on \<^verbatim>\<open>undefined\<close> throws. The console output is not modelled.
\<close>

definition firmware_check ::
  "env \<Rightarrow> headers \<Rightarrow> check_query \<Rightarrow> server_state \<Rightarrow> response \<times> server_state \<times> io_call list" where
  "firmware_check e h q st =
     (if falsy (q_device q) \<or> falsy (q_version q)
      then (Json 400 [(''detail'', JStr ''Missing device or version parameter'')], st, [])
      else
        let st' = store_device_info e q st;
            version = template (q_version q);
            latestVersion = latestVersion_of (AVAILABLE_FIRMWARE st');
            needsUpdate = needsUpdate_of version latestVersion
        in
          if \<not> needsUpdate
          then (Json 200 (up_to_date_body latestVersion), st', [])
          else
            (case map_of (AVAILABLE_FIRMWARE st') (template latestVersion) of
               None \<Rightarrow> (Uncaught, st', [])
             | Some latestInfo \<Rightarrow>
                 let firmwarePath = path_join e (FIRMWARE_DIR e) (filename latestInfo) in
                 if \<not> existsSync e firmwarePath
                 then (Json 404 [(''detail'', JStr ''Firmware file not found'')], st',
                       [ExistsSync firmwarePath])
                 else
                   (case calculateMd5 e firmwarePath of
                      None \<Rightarrow>
                        (Uncaught, st', [ExistsSync firmwarePath, ReadFileSync firmwarePath])
                    | Some checksum \<Rightarrow>
                        (case getFileSize e firmwarePath of
                           None \<Rightarrow>
                             (Uncaught, st',
                              [ExistsSync firmwarePath, ReadFileSync firmwarePath,
                               StatSync firmwarePath])
                         | Some fileSize \<Rightarrow>
                             let protocol = or_else (x_forwarded_proto h) (Some ''http'');
                                 hostname = or_else (x_forwarded_host h) (host h);
                                 downloadUrl =
                                   template protocol @ ''://'' @ template hostname
                                   @ ''/api/v1/firmware/download/'' @ template latestVersion
                             in (Json 200
                                   (update_body latestVersion downloadUrl checksum latestInfo
                                      (JNum (Fin (int fileSize)))),
                                 st',
                                 [ExistsSync firmwarePath, ReadFileSync firmwarePath,
                                  StatSync firmwarePath])))))"

text \<open>The same handler in the S3 variant: the blob work runs inside \<^verbatim>\<open>try\<close>, and the
  \<^verbatim>\<open>catch\<close> answers 500 with a JSON body.\<close>

definition firmware_check_s3 ::
  "env \<Rightarrow> headers \<Rightarrow> check_query \<Rightarrow> server_state \<Rightarrow> response \<times> server_state \<times> io_call list" where
  "firmware_check_s3 e h q st =
     (if falsy (q_device q) \<or> falsy (q_version q)
      then (Json 400 [(''detail'', JStr ''Missing device or version parameter'')], st, [])
      else
        let st' = store_device_info e q st;
            version = template (q_version q);
            latestVersion = latestVersion_of (AVAILABLE_FIRMWARE st');
            needsUpdate = needsUpdate_of version latestVersion
        in
          if \<not> needsUpdate
          then (Json 200 (up_to_date_body latestVersion), st', [])
          else
            (case map_of (AVAILABLE_FIRMWARE st') (template latestVersion) of
               None \<Rightarrow> (Json 500 [(''detail'', JStr ''Internal server error'')], st', [])
             | Some latestInfo \<Rightarrow>
                 let url = getS3Url (filename latestInfo);
                     metadata = checkS3File e (filename latestInfo)
                 in
                   if \<not> m_exists metadata
                   then (Json 404 [(''detail'', JStr ''Firmware file not found'')], st',
                         [HttpsHead url])
                   else
                     (case calculateS3Md5 e (filename latestInfo) of
                        None \<Rightarrow>
                          (Json 500 [(''detail'', JStr ''Internal server error'')], st',
                           [HttpsHead url, HttpsGet url])
                      | Some checksum \<Rightarrow>
                          (Json 200
                             (update_body latestVersion url checksum latestInfo
                                (jv_of_num (m_size metadata))),
                           st', [HttpsHead url, HttpsGet url]))))"

section \<open>The download endpoint\<close>

text \<open>\<^verbatim>\<open>GET /api/v1/firmware/download/:version\<close>. The guard \<^verbatim>\<open>!AVAILABLE_FIRMWARE[version]\<close>
  lets an inherited name through; its \<^verbatim>\<open>filename\<close> is \<^verbatim>\<open>undefined\<close>, on which
  \<^verbatim>\<open>path.join\<close> throws. The file size is read for the log line.\<close>

definition firmware_download ::
  "env \<Rightarrow> string \<Rightarrow> server_state \<Rightarrow> response \<times> server_state \<times> io_call list" where
  "firmware_download e version st =
     (case get_property (AVAILABLE_FIRMWARE st) version of
        Absent \<Rightarrow> (Json 404 [(''detail'', JStr ''Firmware version not found'')], st, [])
      | Inherited \<Rightarrow> (Uncaught, st, [])
      | Own firmwareInfo \<Rightarrow>
          let firmwarePath = path_join e (FIRMWARE_DIR e) (filename firmwareInfo) in
          if \<not> existsSync e firmwarePath
          then (Json 404 [(''detail'', JStr ''Firmware file not found'')], st,
                [ExistsSync firmwarePath])
          else
            (case getFileSize e firmwarePath of
               None \<Rightarrow> (Uncaught, st, [ExistsSync firmwarePath, StatSync firmwarePath])
             | Some fileSize \<Rightarrow>
                 (SendFile firmwarePath ''application/octet-stream''
                    (''attachment; filename='' @ [CHR 0x22] @ filename firmwareInfo @ [CHR 0x22]),
                  st, [ExistsSync firmwarePath, StatSync firmwarePath])))"

section \<open>The release endpoint\<close>

text \<open>\<^verbatim>\<open>new Date().toISOString().split('T')[0]\<close>.\<close>

definition current_date :: "env \<Rightarrow> string" where
  "current_date e = (case split CHR ''T'' (now e) of [] \<Rightarrow> [] | d # rest \<Rightarrow> d)"

text \<open>\<^verbatim>\<open>mandatory = false\<close> in the destructuring of the body.\<close>

fun mandatory_of :: "bool option \<Rightarrow> bool" where
  "mandatory_of None = False"
| "mandatory_of (Some m) = m"

definition new_release :: "env \<Rightarrow> release_body \<Rightarrow> firmware" where
  "new_release e b =
     \<lparr>filename = template (b_filename b),
      release_date = current_date e,
      changelog = template (b_changelog b),
      mandatory = mandatory_of (b_mandatory b)\<rparr>"

text \<open>\<^verbatim>\<open>POST /admin/firmware/release\<close> in \<^verbatim>\<open>src/index.js\<close>. The second guard is
  \<^verbatim>\<open>if (AVAILABLE_FIRMWARE[version])\<close>: any truthy property, own or inherited.\<close>

definition firmware_release ::
  "env \<Rightarrow> release_body \<Rightarrow> server_state \<Rightarrow> response \<times> server_state \<times> io_call list" where
  "firmware_release e b st =
     (if falsy (b_version b) \<or> falsy (b_filename b) \<or> falsy (b_changelog b)
      then (Json 400 [(''detail'', JStr ''Missing required fields'')], st, [])
      else
        let version = template (b_version b) in
        if get_property (AVAILABLE_FIRMWARE st) version \<noteq> Absent
        then (Json 400 [(''detail'', JStr ''Version already exists'')], st, [])
        else
          let firmwarePath = path_join e (FIRMWARE_DIR e) (template (b_filename b)) in
          if \<not> existsSync e firmwarePath
          then (Json 404 [(''detail'', JStr ''Firmware file not found'')], st,
                [ExistsSync firmwarePath])
          else
            (Json 200
               [(''status'', JStr ''success''),
                (''message'', JStr (''Firmware v'' @ version @ '' released'')),
                (''version'', JStr version)],
             st\<lparr>AVAILABLE_FIRMWARE :=
                  set_property (AVAILABLE_FIRMWARE st) version (new_release e b)\<rparr>,
             [ExistsSync firmwarePath]))"

text \<open>The S3 variant: the existence check is \<^verbatim>\<open>checkS3File\<close>, and the acceptance carries
  \<^verbatim>\<open>file_size: metadata.size\<close>. Nothing inside its \<^verbatim>\<open>try\<close> throws.\<close>

definition firmware_release_s3 ::
  "env \<Rightarrow> release_body \<Rightarrow> server_state \<Rightarrow> response \<times> server_state \<times> io_call list" where
  "firmware_release_s3 e b st =
     (if falsy (b_version b) \<or> falsy (b_filename b) \<or> falsy (b_changelog b)
      then (Json 400 [(''detail'', JStr ''Missing required fields'')], st, [])
      else
        let version = template (b_version b) in
        if get_property (AVAILABLE_FIRMWARE st) version \<noteq> Absent
        then (Json 400 [(''detail'', JStr ''Version already exists'')], st, [])
        else
          let url = getS3Url (template (b_filename b));
              metadata = checkS3File e (template (b_filename b))
          in
            if \<not> m_exists metadata
            then (Json 404 [(''detail'', JStr ''Firmware file not found in S3'')], st,
                  [HttpsHead url])
            else
              (Json 200
                 [(''status'', JStr ''success''),
                  (''message'', JStr (''Firmware v'' @ version @ '' released'')),
                  (''version'', JStr version),
                  (''file_size'', jv_of_num (m_size metadata))],
               st\<lparr>AVAILABLE_FIRMWARE :=
                    set_property (AVAILABLE_FIRMWARE st) version (new_release e b)\<rparr>,
               [HttpsHead url]))"

section \<open>The remaining endpoints and the router\<close>

definition admin_devices :: "server_state \<Rightarrow> response \<times> server_state \<times> io_call list" where
  "admin_devices st =
     (DevicesJson (length (Object_keys (devicesDb st))) (Object_entries (devicesDb st)),
      st, [])"

definition root_info :: "server_state \<Rightarrow> response \<times> server_state \<times> io_call list" where
  "root_info st =
     (Json 200
        [(''server'', JStr ''ESP32 OTA Cloud Server (Node.js)''),
         (''status'', JStr ''running''),
         (''firmware_versions'', JArr (map JStr (Object_keys (AVAILABLE_FIRMWARE st)))),
         (''endpoints'',
          JArr [JStr ''/api/v1/firmware/check'', JStr ''/api/v1/firmware/download/:version'',
                JStr ''/admin/devices'', JStr ''/health''])],
      st, [])"

definition health :: "env \<Rightarrow> server_state \<Rightarrow> response \<times> server_state \<times> io_call list" where
  "health e st =
     (Json 200 [(''status'', JStr ''healthy''), (''timestamp'', JStr (now e))], st, [])"

datatype request =
    GetRoot
  | GetHealth
  | GetCheck headers check_query
  | GetDownload headers string
  | GetDevices headers
  | PostRelease headers release_body

text \<open>A route with \<^verbatim>\<open>verifyApiKey\<close> in front: the handler runs only after \<^verbatim>\<open>next()\<close>.\<close>

definition guarded ::
  "headers \<Rightarrow> server_state \<Rightarrow> (response \<times> server_state \<times> io_call list)
     \<Rightarrow> response \<times> server_state \<times> io_call list" where
  "guarded h st handler =
     (case verifyApiKey (authorization h) of
        Rejected r \<Rightarrow> (r, st, [])
      | Next_with apiKey \<Rightarrow> handler)"

fun serve :: "env \<Rightarrow> request \<Rightarrow> server_state \<Rightarrow> response \<times> server_state \<times> io_call list" where
  "serve e GetRoot st = root_info st"
| "serve e GetHealth st = health e st"
| "serve e (GetCheck h q) st = guarded h st (firmware_check e h q st)"
| "serve e (GetDownload h version) st = guarded h st (firmware_download e version st)"
| "serve e (GetDevices h) st = guarded h st (admin_devices st)"
| "serve e (PostRelease h b) st = guarded h st (firmware_release e b st)"

text \<open>The state after a sequence of requests, each with the world as it stood then.\<close>

fun run :: "(env \<times> request) list \<Rightarrow> server_state \<Rightarrow> server_state" where
  "run [] st = st"
| "run ((e, r) # rest) st = run rest (fst (snd (serve e r st)))"

section \<open>Example worlds and requests\<close>

text \<open>The concrete inputs of the examples below: a world in which every file exists and is
  empty and the bucket answers every request with status 200; worlds in which the blob
  store has no file and the HEAD request fails (\<open>missing_blob_env\<close>), in which only the GET
  request fails (\<open>broken_get_env\<close>), and in which the file cannot be read
  (\<open>unreadable_env\<close>); a set of headers with a valid key; check and release requests; a
  state whose latest release is mandatory; and a sequence of later requests.\<close>

definition example_env :: env where
  "example_env =
     \<lparr>now = ''2026-03-01T10:20:30.000Z'',
      parseInt = (\<lambda>s. if s = ''-70'' then Fin (- 70) else if s = ''1024'' then Fin 1024 else NaN),
      md5_hex = (\<lambda>b. ''d41d8cd98f00b204e9800998ecf8427e''),
      path_join = (\<lambda>d f. d @ ''/'' @ f),
      FIRMWARE_DIR = ''/firmware'',
      existsSync = (\<lambda>p. True),
      readFileSync = (\<lambda>p. Some []),
      statSync_size = (\<lambda>p. Some 0),
      https_head = (\<lambda>u. HeadResponse 200 (Some ''1024'') None),
      https_get = (\<lambda>u. GetResponse 200 [] True)\<rparr>"

definition example_headers :: headers where
  "example_headers =
     \<lparr>authorization = Some ''Bearer test123'', x_forwarded_proto = None,
      x_forwarded_host = None, host = Some ''ota.example''\<rparr>"

definition check_of :: "string \<Rightarrow> string \<Rightarrow> check_query" where
  "check_of device version =
     \<lparr>q_device = Some device, q_version = Some version, q_model = None, q_rssi = None\<rparr>"

definition mandatory_state :: server_state where
  "mandatory_state =
     \<lparr>AVAILABLE_FIRMWARE =
        [(''2.3.0'', \<lparr>filename = ''v2_3.bin'', release_date = ''2026-02-14'',
                      changelog = ''Updated version'', mandatory = True\<rparr>)],
      devicesDb = []\<rparr>"

definition missing_blob_env :: env where
  "missing_blob_env =
     example_env\<lparr>existsSync := (\<lambda>p. False), https_head := (\<lambda>u. HeadError),
                 https_get := (\<lambda>u. GetError)\<rparr>"

definition rssi_check :: check_query where
  "rssi_check =
     \<lparr>q_device = Some ''D1'', q_version = Some ''2.2.0'', q_model = None,
      q_rssi = Some ''-70''\<rparr>"

definition versionless_check :: check_query where
  "versionless_check =
     \<lparr>q_device = Some ''D1'', q_version = None, q_model = None, q_rssi = Some ''-70''\<rparr>"

definition release_of :: "string \<Rightarrow> string \<Rightarrow> release_body" where
  "release_of version fname =
     \<lparr>b_version = Some version, b_filename = Some fname, b_changelog = Some ''notes'',
      b_mandatory = None\<rparr>"

definition mandatory_release :: release_body where
  "mandatory_release =
     \<lparr>b_version = Some ''3.0.0'', b_filename = Some ''new.bin'', b_changelog = Some ''notes'',
      b_mandatory = Some True\<rparr>"

definition later_requests :: "(env \<times> request) list" where
  "later_requests =
     [(example_env, PostRelease example_headers (release_of ''3.0.0'' ''other.bin'')),
      (example_env, GetCheck example_headers (check_of ''D1'' ''2.2.0'')),
      (missing_blob_env, PostRelease example_headers (release_of ''3.1.0'' ''new.bin'')),
      (example_env, GetDownload example_headers ''3.0.0'')]"

definition broken_get_env :: env where
  "broken_get_env = example_env\<lparr>https_get := (\<lambda>u. GetError)\<rparr>"

definition unreadable_env :: env where
  "unreadable_env = example_env\<lparr>readFileSync := (\<lambda>p. None)\<rparr>"

section \<open>Properties of the middleware\<close>

lemma split_nonempty: "split sep s \<noteq> []"
  by (induction s) (auto split: list.splits)

lemma split_no_sep: "sep \<notin> set s \<Longrightarrow> split sep s = [s]"
  by (induction s) auto

lemma split_append_sep: "split sep (a @ sep # b) = split sep a @ split sep b"
proof (induction a)
  case Nil
  show ?case by simp
next
  case (Cons c a)
  obtain p ps where ps: "split sep a = p # ps"
    using split_nonempty [of sep a] by (cases "split sep a") auto
  show ?case using Cons ps by simp
qed

lemma bearer_scheme_no_space:
  assumes "toLowerCase scheme = ''bearer''"
  shows "CHR '' '' \<notin> set scheme"
proof
  assume "CHR '' '' \<in> set scheme"
  then have "toLowerCase_char CHR '' '' \<in> set (toLowerCase scheme)"
    by (auto simp: toLowerCase_def)
  moreover have "toLowerCase_char CHR '' '' = CHR '' ''"
    by (simp add: toLowerCase_char_def)
  ultimately show False using assms by simp
qed

lemma valid_key_no_space: "token \<in> set VALID_API_KEYS \<Longrightarrow> CHR '' '' \<notin> set token"
  by (auto simp: VALID_API_KEYS_def)

text \<open>Lowercasing moves the code of a capital letter up by 32 and leaves every other
  character as it is.\<close>

lemma toLowerCase_char_code:
  "of_char (toLowerCase_char c) =
     (if (65 \<le> (of_char c :: nat) \<and> (of_char c :: nat) \<le> 90)
         \<or> (192 \<le> (of_char c :: nat) \<and> (of_char c :: nat) \<le> 222 \<and> (of_char c :: nat) \<noteq> 215)
      then (of_char c :: nat) + 32 else of_char c)"
proof -
  have "(of_char c :: nat) \<le> 222 \<Longrightarrow> ((of_char c :: nat) + 32) mod 256 = of_char c + 32"
    by simp
  then show ?thesis
    by (auto simp: toLowerCase_char_def Let_def of_char_of)
qed

lemma split_two_parts_nonempty: "split sep h = [p0, p1] \<Longrightarrow> h \<noteq> []"
  by auto

text \<open>
  Claim C10. The middleware matches the scheme after lowercasing it. A header
  \<^verbatim>\<open><scheme> <token>\<close> whose scheme lowercases to \<^verbatim>\<open>bearer\<close>, with a token of the allow-set,
  is authenticated as that token, whatever the casing of the scheme; and only such a header
  is authenticated: a request that passes has a header of exactly two space-separated
  parts, the first lowercasing to \<^verbatim>\<open>bearer\<close> and the second a token of the allow-set. A
  header that does not split into exactly two parts, a two-part header with another scheme,
  and a missing header are rejected with status 401; a bearer header with a token outside
  the allow-set is rejected with status 403.
\<close>

theorem verifyApiKey_scheme_case_insensitive:
  "(toLowerCase scheme = ''bearer'' \<and> token \<in> set VALID_API_KEYS
      \<longrightarrow> verifyApiKey (Some (scheme @ '' '' @ token)) = Next_with token)
   \<and> (length (split CHR '' '' h) \<noteq> 2
      \<longrightarrow> (\<exists>r. verifyApiKey (Some h) = Rejected r \<and> status_of r = 401))
   \<and> (verifyApiKey (Some h) = Next_with k
      \<longrightarrow> (\<exists>p0. split CHR '' '' h = [p0, k] \<and> toLowerCase p0 = ''bearer''
                \<and> k \<in> set VALID_API_KEYS))
   \<and> (split CHR '' '' h = [p0, p1] \<and> toLowerCase p0 \<noteq> ''bearer''
      \<longrightarrow> (\<exists>r. verifyApiKey (Some h) = Rejected r \<and> status_of r = 401))
   \<and> (split CHR '' '' h = [p0, p1] \<and> toLowerCase p0 = ''bearer''
       \<and> p1 \<notin> set VALID_API_KEYS
      \<longrightarrow> (\<exists>r. verifyApiKey (Some h) = Rejected r \<and> status_of r = 403))
   \<and> (\<exists>r. verifyApiKey None = Rejected r \<and> status_of r = 401)"
proof (intro conjI impI)
  assume a: "toLowerCase scheme = ''bearer'' \<and> token \<in> set VALID_API_KEYS"
  then have s: "CHR '' '' \<notin> set scheme" and t: "CHR '' '' \<notin> set token"
    by (auto dest: bearer_scheme_no_space valid_key_no_space)
  have "split CHR '' '' (scheme @ '' '' @ token) = [scheme, token]"
    using split_append_sep [of "CHR '' ''" scheme token] s t
    by (simp add: split_no_sep)
  then show "verifyApiKey (Some (scheme @ '' '' @ token)) = Next_with token"
    using a by (simp add: verifyApiKey_def)
next
  assume l: "length (split CHR '' '' h) \<noteq> 2"
  show "\<exists>r. verifyApiKey (Some h) = Rejected r \<and> status_of r = 401"
  proof (cases "h = []")
    case True
    then show ?thesis by (simp add: verifyApiKey_def)
  next
    case False
    have "\<not> (\<exists>p0 p1. split CHR '' '' h = [p0, p1])"
      using l by auto
    then have "verifyApiKey (Some h) =
        Rejected (Json 401 [(''detail'', JStr ''Invalid authorization format'')])"
      using False by (auto simp: verifyApiKey_def split: list.splits)
    then show ?thesis by simp
  qed
next
  assume n: "verifyApiKey (Some h) = Next_with k"
  then show "\<exists>p0. split CHR '' '' h = [p0, k] \<and> toLowerCase p0 = ''bearer''
                \<and> k \<in> set VALID_API_KEYS"
    by (auto simp: verifyApiKey_def split: if_splits list.splits)
next
  assume "split CHR '' '' h = [p0, p1] \<and> toLowerCase p0 \<noteq> ''bearer''"
  then show "\<exists>r. verifyApiKey (Some h) = Rejected r \<and> status_of r = 401"
    by (cases "h = []") (auto simp: verifyApiKey_def)
next
  assume "split CHR '' '' h = [p0, p1] \<and> toLowerCase p0 = ''bearer''
       \<and> p1 \<notin> set VALID_API_KEYS"
  then show "\<exists>r. verifyApiKey (Some h) = Rejected r \<and> status_of r = 403"
    by (cases "h = []") (auto simp: verifyApiKey_def)
next
  show "\<exists>r. verifyApiKey None = Rejected r \<and> status_of r = 401"
    by (simp add: verifyApiKey_def)
qed

theorem verifyApiKey_scheme_case_insensitive_witness:
  "verifyApiKey (Some ''BeArEr test123'') = Next_with ''test123''
   \<and> verifyApiKey (Some ''bearer prod456'') = Next_with ''prod456''
   \<and> (\<exists>r. verifyApiKey (Some ''Bearer  test123'') = Rejected r \<and> status_of r = 401)
   \<and> (\<exists>r. verifyApiKey (Some ''test123'') = Rejected r \<and> status_of r = 401)
   \<and> (\<exists>r. verifyApiKey (Some ''Basic test123'') = Rejected r \<and> status_of r = 401)
   \<and> (\<exists>r. verifyApiKey (Some ''Bearer wrong'') = Rejected r \<and> status_of r = 403)
   \<and> verifyApiKey (Some ''Basic test123'') \<noteq> Next_with ''test123''"
proof -
  have l1: "toLowerCase ''BeArEr'' = ''bearer'' \<and> ''test123'' \<in> set VALID_API_KEYS"
    by code_simp
  have l2: "toLowerCase ''bearer'' = ''bearer'' \<and> ''prod456'' \<in> set VALID_API_KEYS"
    by code_simp
  have l3: "length (split CHR '' '' ''Bearer  test123'') \<noteq> 2" by simp
  have l4: "length (split CHR '' '' ''test123'') \<noteq> 2" by simp
  have l5: "split CHR '' '' ''Basic test123'' = [''Basic'', ''test123'']
      \<and> toLowerCase ''Basic'' \<noteq> ''bearer''"
    by code_simp
  have l6: "split CHR '' '' ''Bearer wrong'' = [''Bearer'', ''wrong'']
      \<and> toLowerCase ''Bearer'' = ''bearer'' \<and> ''wrong'' \<notin> set VALID_API_KEYS"
    by code_simp
  note t1 = verifyApiKey_scheme_case_insensitive
      [where scheme = "''BeArEr''" and token = "''test123''" and h = "''Bearer  test123''"]
  note t2 = verifyApiKey_scheme_case_insensitive
      [where scheme = "''bearer''" and token = "''prod456''" and h = "''test123''"]
  note t3 = verifyApiKey_scheme_case_insensitive
      [where h = "''Basic test123''" and ?p0.0 = "''Basic''" and ?p1.0 = "''test123''"
         and k = "''test123''"]
  note t4 = verifyApiKey_scheme_case_insensitive
      [where h = "''Bearer wrong''" and ?p0.0 = "''Bearer''" and ?p1.0 = "''wrong''"]
  have a1: "verifyApiKey (Some ''BeArEr test123'') = Next_with ''test123''"
    using t1 [THEN conjunct1] l1 by simp
  have a2: "verifyApiKey (Some ''bearer prod456'') = Next_with ''prod456''"
    using t2 [THEN conjunct1] l2 by simp
  have a3: "\<exists>r. verifyApiKey (Some ''Bearer  test123'') = Rejected r \<and> status_of r = 401"
    using t1 [THEN conjunct2, THEN conjunct1] l3 by (rule mp)
  have a4: "\<exists>r. verifyApiKey (Some ''test123'') = Rejected r \<and> status_of r = 401"
    using t2 [THEN conjunct2, THEN conjunct1] l4 by (rule mp)
  have a5: "\<exists>r. verifyApiKey (Some ''Basic test123'') = Rejected r \<and> status_of r = 401"
    using t3 [THEN conjunct2, THEN conjunct2, THEN conjunct2, THEN conjunct1] l5 by (rule mp)
  have a6: "\<exists>r. verifyApiKey (Some ''Bearer wrong'') = Rejected r \<and> status_of r = 403"
    using t4 [THEN conjunct2, THEN conjunct2, THEN conjunct2, THEN conjunct2, THEN conjunct1]
      l6 by (rule mp)
  have a7: "verifyApiKey (Some ''Basic test123'') \<noteq> Next_with ''test123''"
    using a5 by auto
  from a1 a2 a3 a4 a5 a6 a7 show ?thesis by (intro conjI)
qed

section \<open>Properties of the catalog\<close>

text \<open>The order on strings that the model compares versions by is the lexicographic one on
  character codes: a proper prefix is smaller, and otherwise the first differing character
  decides.\<close>

lemma string_order_lexicographic:
  "([] :: string) < d # ds"
  "\<not> (xs :: string) < []"
  "((c # cs :: string) < d # ds) = (c < d \<or> c = d \<and> cs < ds)"
  "((c :: char) < d) = ((of_char c :: nat) < of_char d)"
  by (simp_all add: less_char_def)

lemma sorted_le_last:
  fixes xs :: "'a::linorder list"
  shows "sorted xs \<Longrightarrow> x \<in> set xs \<Longrightarrow> x \<le> last xs"
proof (induction xs)
  case Nil
  then show ?case by simp
next
  case (Cons y ys)
  show ?case
  proof (cases "ys = []")
    case True
    with Cons.prems show ?thesis by simp
  next
    case False
    then have l: "last ys \<in> set ys" by simp
    from Cons.prems(1) have s: "sorted ys" and le: "\<forall>z\<in>set ys. y \<le> z" by simp_all
    show ?thesis
    proof (cases "x = y")
      case True
      with le l False show ?thesis by simp
    next
      case neq: False
      with Cons.prems(2) have "x \<in> set ys" by simp
      with Cons.IH s False show ?thesis by simp
    qed
  qed
qed

lemma sorted_last_Max:
  fixes xs :: "'a::linorder list"
  assumes "sorted xs" and "xs \<noteq> []"
  shows "last xs = Max (set xs)"
proof -
  have "\<And>x. x \<in> set xs \<Longrightarrow> x \<le> last xs"
    using assms(1) by (rule sorted_le_last)
  moreover have "last xs \<in> set xs" using assms(2) by simp
  ultimately have "Max (set xs) = last xs"
    by (intro Max_eqI) simp_all
  then show ?thesis by simp
qed

text \<open>The enumeration order permutes the own properties; it neither adds nor drops one.\<close>

lemma Object_entries_set: "set (Object_entries obj) = set obj"
  by (auto simp: Object_entries_def)

lemma Object_keys_set: "set (Object_keys obj) = fst ` set obj"
  by (simp add: Object_keys_def Object_entries_set)

lemma Object_keys_length: "length (Object_keys obj) = length obj"
  by (simp add: Object_keys_def Object_entries_def sum_length_filter_compl)

lemma enumeration_order_example:
  "Object_keys [(''2.2.0'', a), (''10'', b), (''3'', c), (''07'', d)]
     = [''3'', ''10'', ''2.2.0'', ''07'']"
  by (simp add: Object_keys_def Object_entries_def is_digit_def decimal_value_def)

lemma latestVersion_of_empty: "latestVersion_of [] = None"
  by (simp add: latestVersion_of_def Object_keys_def Object_entries_def)

lemma latestVersion_of_Max:
  assumes "catalog \<noteq> []"
  shows "latestVersion_of catalog = Some (Max (set (Object_keys catalog)))"
proof -
  let ?vs = "sort (Object_keys catalog)"
  have "length ?vs = length catalog" by (simp add: Object_keys_length)
  then have "length ?vs \<noteq> 0" using assms by simp
  then have ne: "?vs \<noteq> []" by (simp only: length_0_conv not_False_eq_True)
  have "last ?vs = Max (set ?vs)"
    using ne by (intro sorted_last_Max) simp_all
  then show ?thesis
    using ne by (simp add: latestVersion_of_def Let_def)
qed

lemma latestVersion_of_Some_iff:
  "latestVersion_of catalog = Some l \<longleftrightarrow> catalog \<noteq> [] \<and> l = Max (set (Object_keys catalog))"
  by (cases "catalog = []") (auto simp: latestVersion_of_empty latestVersion_of_Max)

lemma latestVersion_of_is_key:
  assumes "latestVersion_of catalog = Some l"
  shows "l \<in> set (Object_keys catalog)"
proof -
  from assms have ne: "catalog \<noteq> []" and l: "l = Max (set (Object_keys catalog))"
    by (simp_all add: latestVersion_of_Some_iff)
  have "set (Object_keys catalog) \<noteq> {}" using ne by (simp add: Object_keys_set)
  then show ?thesis unfolding l by (intro Max_in) simp_all
qed

lemma latestVersion_of_greatest:
  assumes "latestVersion_of catalog = Some l" and "k \<in> set (Object_keys catalog)"
  shows "k \<le> l"
  using assms by (simp add: latestVersion_of_Some_iff)

lemma latestInfo_defined:
  assumes "latestVersion_of catalog = Some l"
  shows "\<exists>info. map_of catalog l = Some info"
proof -
  have "l \<in> fst ` set catalog"
    using latestVersion_of_is_key [OF assms] by (simp add: Object_keys_set)
  then show ?thesis by (cases "map_of catalog l") (auto simp: map_of_eq_None_iff)
qed

lemma store_device_info_catalog [simp]:
  "AVAILABLE_FIRMWARE (store_device_info e q st) = AVAILABLE_FIRMWARE st"
  by (simp add: store_device_info_def)

lemma falsy_iff [simp]: "falsy x = (\<not> truthy x)"
  by (cases x) auto

lemma truthy_template: "truthy x \<Longrightarrow> x = Some (template x) \<and> template x \<noteq> []"
  by (cases x) auto

text \<open>A check that is rejected, and a check that finds the device up to date.\<close>

lemma firmware_check_missing:
  "\<not> (truthy (q_device q) \<and> truthy (q_version q)) \<Longrightarrow>
   firmware_check e h q st =
     (Json 400 [(''detail'', JStr ''Missing device or version parameter'')], st, [])"
  by (auto simp: firmware_check_def)

lemma firmware_check_up_to_date:
  assumes "truthy (q_device q)" and "truthy (q_version q)"
    and "\<not> needsUpdate_of (template (q_version q)) (latestVersion_of (AVAILABLE_FIRMWARE st))"
  shows "firmware_check e h q st =
     (Json 200 (up_to_date_body (latestVersion_of (AVAILABLE_FIRMWARE st))),
      store_device_info e q st, [])"
  using assms by (simp add: firmware_check_def Let_def)

text \<open>Up to that point the two variants are the same code.\<close>

lemma check_variants_agree_when_up_to_date:
  assumes "\<not> needsUpdate_of (template (q_version q)) (latestVersion_of (AVAILABLE_FIRMWARE st))"
  shows "firmware_check_s3 e h q st = firmware_check e h q st"
  using assms by (simp add: firmware_check_s3_def firmware_check_def Let_def)

lemma firmware_check_catalog:
  "AVAILABLE_FIRMWARE (fst (snd (firmware_check e h q st))) = AVAILABLE_FIRMWARE st"
  by (simp add: firmware_check_def Let_def split: option.splits)

lemma firmware_check_s3_catalog:
  "AVAILABLE_FIRMWARE (fst (snd (firmware_check_s3 e h q st))) = AVAILABLE_FIRMWARE st"
  by (simp add: firmware_check_s3_def Let_def split: option.splits)

text \<open>
  Claim C2. On a non-empty catalog the latest version is a key of the catalog that is
  greatest among the keys in the lexicographic order of the strings: with the keys 2.2.0,
  2.3.0 and 3.1.0 it is 3.1.0, while 10.0.0 sorts before 2.0.0. A check request leaves the
  catalog as it was, so the next one finds the same latest version.
\<close>

theorem latest_is_lexicographic_maximum:
  "(catalog \<noteq> [] \<longrightarrow>
      (\<exists>l. latestVersion_of catalog = Some l \<and> l \<in> set (Object_keys catalog)
           \<and> (\<forall>k \<in> set (Object_keys catalog). k \<le> l)))
   \<and> (set (Object_keys catalog) = {''2.2.0'', ''2.3.0'', ''3.1.0''}
        \<longrightarrow> latestVersion_of catalog = Some ''3.1.0'')
   \<and> (set (Object_keys catalog) = {''10.0.0'', ''2.0.0''}
        \<longrightarrow> latestVersion_of catalog = Some ''2.0.0'')
   \<and> latestVersion_of (AVAILABLE_FIRMWARE (fst (snd (firmware_check e h q st))))
       = latestVersion_of (AVAILABLE_FIRMWARE st)"
proof (intro conjI impI)
  assume ne: "catalog \<noteq> []"
  then obtain l where l: "latestVersion_of catalog = Some l"
    by (simp add: latestVersion_of_Max)
  show "\<exists>l. latestVersion_of catalog = Some l \<and> l \<in> set (Object_keys catalog)
           \<and> (\<forall>k \<in> set (Object_keys catalog). k \<le> l)"
    using l latestVersion_of_is_key [OF l] latestVersion_of_greatest [OF l] by blast
next
  assume k: "set (Object_keys catalog) = {''2.2.0'', ''2.3.0'', ''3.1.0''}"
  have "''3.1.0'' \<in> set (Object_keys catalog)" unfolding k by simp
  then have "catalog \<noteq> []" by (auto simp: Object_keys_set)
  then have "latestVersion_of catalog = Some (Max (set (Object_keys catalog)))"
    by (rule latestVersion_of_Max)
  then have "latestVersion_of catalog = Some (Max {''2.2.0'', ''2.3.0'', ''3.1.0''})"
    unfolding k .
  also have "Max {''2.2.0'', ''2.3.0'', ''3.1.0''} = (''3.1.0'' :: string)"
    by (simp add: max_def)
  finally show "latestVersion_of catalog = Some ''3.1.0''" .
next
  assume k: "set (Object_keys catalog) = {''10.0.0'', ''2.0.0''}"
  have "''2.0.0'' \<in> set (Object_keys catalog)" unfolding k by simp
  then have "catalog \<noteq> []" by (auto simp: Object_keys_set)
  then have "latestVersion_of catalog = Some (Max (set (Object_keys catalog)))"
    by (rule latestVersion_of_Max)
  then have "latestVersion_of catalog = Some (Max {''10.0.0'', ''2.0.0''})"
    unfolding k .
  also have "Max {''10.0.0'', ''2.0.0''} = (''2.0.0'' :: string)"
    by (simp add: max_def)
  finally show "latestVersion_of catalog = Some ''2.0.0''" .
next
  show "latestVersion_of (AVAILABLE_FIRMWARE (fst (snd (firmware_check e h q st))))
       = latestVersion_of (AVAILABLE_FIRMWARE st)"
    by (simp add: firmware_check_catalog)
qed

lemma initial_firmware_s3_keys:
  "set (Object_keys initial_firmware_s3) = {''2.2.0'', ''2.3.0'', ''3.1.0''}"
  by (simp add: initial_firmware_s3_def Object_keys_set)

theorem latest_is_lexicographic_maximum_witness:
  "initial_firmware_s3 \<noteq> []
   \<and> latestVersion_of initial_firmware_s3 = Some ''3.1.0''
   \<and> ''3.1.0'' \<in> set (Object_keys initial_firmware_s3)
   \<and> ''2.2.0'' \<le> ''3.1.0'' \<and> ''2.3.0'' \<le> ''3.1.0''
   \<and> latestVersion_of (AVAILABLE_FIRMWARE
        (fst (snd (firmware_check example_env example_headers (check_of ''D1'' ''2.2.0'')
                     initial_state_s3)))) = Some ''3.1.0''"
proof -
  have ne: "initial_firmware_s3 \<noteq> []" by (simp add: initial_firmware_s3_def)
  have st: "AVAILABLE_FIRMWARE initial_state_s3 = initial_firmware_s3"
    by (simp add: initial_state_s3_def)
  show ?thesis
    using latest_is_lexicographic_maximum
            [of initial_firmware_s3 example_env example_headers "check_of ''D1'' ''2.2.0''"
                initial_state_s3]
          ne initial_firmware_s3_keys st
    by simp
qed

section \<open>Properties of the check endpoint\<close>

lemma firmware_check_update_response:
  assumes "truthy (q_device q)" and "truthy (q_version q)"
    and "needsUpdate_of (template (q_version q)) (latestVersion_of (AVAILABLE_FIRMWARE st))"
  shows "fst (firmware_check e h q st) = Uncaught
       \<or> fst (firmware_check e h q st) = Json 404 [(''detail'', JStr ''Firmware file not found'')]
       \<or> (\<exists>url csum info fsize.
             fst (firmware_check e h q st) =
               Json 200 (update_body (latestVersion_of (AVAILABLE_FIRMWARE st)) url csum info fsize))"
  using assms by (simp add: firmware_check_def Let_def split: option.splits) blast

lemma update_available_of_update_body:
  "json_field ''update_available'' (Json n (update_body l url csum info fsize)) = Some (JBool True)"
  by (simp add: update_body_def)

lemma update_available_of_up_to_date_body:
  "json_field ''update_available'' (Json n (up_to_date_body l)) = Some (JBool False)"
  by (simp add: up_to_date_body_def)

text \<open>
  Claim C1. For a check request with device and version present, against a catalog whose
  latest version is \<open>latestVersion\<close>, the decision is the comparison of the two raw strings:
  when the reported version is not less than the latest one the response says
  \<^verbatim>\<open>update_available: false\<close>; when it is less, the response never says so, and a response
  with status 200 says \<^verbatim>\<open>update_available: true\<close>. A device reporting 9.0.0 against the
  latest version 3.1.0 is told that no update is available.
\<close>

theorem check_decision_is_string_comparison:
  assumes "truthy (q_device q)" and "q_version q = Some version" and "version \<noteq> []"
    and "latestVersion_of (AVAILABLE_FIRMWARE st) = Some latestVersion"
  shows "(\<not> version < latestVersion \<longrightarrow>
            json_field ''update_available'' (fst (firmware_check e h q st)) = Some (JBool False))
       \<and> (version < latestVersion \<longrightarrow>
            json_field ''update_available'' (fst (firmware_check e h q st)) \<noteq> Some (JBool False)
            \<and> (status_of (fst (firmware_check e h q st)) = 200 \<longrightarrow>
                 json_field ''update_available'' (fst (firmware_check e h q st))
                   = Some (JBool True)))
       \<and> (version = ''9.0.0'' \<and> latestVersion = ''3.1.0'' \<longrightarrow>
            json_field ''update_available'' (fst (firmware_check e h q st)) = Some (JBool False))"
proof -
  let ?r = "fst (firmware_check e h q st)"
  have v: "truthy (q_version q)" "template (q_version q) = version"
    using assms(2,3) by simp_all
  have no: "json_field ''update_available'' ?r = Some (JBool False)"
    if "\<not> version < latestVersion"
  proof -
    have "\<not> needsUpdate_of (template (q_version q)) (latestVersion_of (AVAILABLE_FIRMWARE st))"
      using that v assms(4) by simp
    then have "?r = Json 200 (up_to_date_body (latestVersion_of (AVAILABLE_FIRMWARE st)))"
      using firmware_check_up_to_date [OF assms(1) v(1)] by simp
    then show ?thesis by (simp only: update_available_of_up_to_date_body)
  qed
  have yes: "json_field ''update_available'' ?r \<noteq> Some (JBool False)
       \<and> (status_of ?r = 200 \<longrightarrow> json_field ''update_available'' ?r = Some (JBool True))"
    if "version < latestVersion"
  proof -
    have "needsUpdate_of (template (q_version q)) (latestVersion_of (AVAILABLE_FIRMWARE st))"
      using that v assms(4) by simp
    from firmware_check_update_response [OF assms(1) v(1) this, of e h]
    consider "?r = Uncaught"
      | "?r = Json 404 [(''detail'', JStr ''Firmware file not found'')]"
      | url csum info fsize where
          "?r = Json 200 (update_body (latestVersion_of (AVAILABLE_FIRMWARE st)) url csum info fsize)"
      by blast
    then show ?thesis
    proof cases
      case 1
      then show ?thesis by simp
    next
      case 2
      then show ?thesis by simp
    next
      case 3
      then show ?thesis by (simp only: update_available_of_update_body) simp
    qed
  qed
  have "\<not> (''9.0.0'' :: string) < ''3.1.0''" by simp
  with no yes show ?thesis by blast
qed

lemma latest_of_initial_state_s3:
  "latestVersion_of (AVAILABLE_FIRMWARE initial_state_s3) = Some ''3.1.0''"
proof -
  have "latestVersion_of (AVAILABLE_FIRMWARE initial_state_s3)
      = Some (Max (set (Object_keys (AVAILABLE_FIRMWARE initial_state_s3))))"
    by (rule latestVersion_of_Max) (simp add: initial_state_s3_def initial_firmware_s3_def)
  then show ?thesis
    by (simp add: initial_state_s3_def initial_firmware_s3_def Object_keys_set max_def)
qed

lemma latest_of_initial_state:
  "latestVersion_of (AVAILABLE_FIRMWARE initial_state) = Some ''2.3.0''"
proof -
  have "latestVersion_of (AVAILABLE_FIRMWARE initial_state)
      = Some (Max (set (Object_keys (AVAILABLE_FIRMWARE initial_state))))"
    by (rule latestVersion_of_Max) (simp add: initial_state_def initial_firmware_def)
  then show ?thesis
    by (simp add: initial_state_def initial_firmware_def Object_keys_set max_def)
qed

lemma latest_of_mandatory_state:
  "latestVersion_of (AVAILABLE_FIRMWARE mandatory_state) = Some ''2.3.0''"
proof -
  have "latestVersion_of (AVAILABLE_FIRMWARE mandatory_state)
      = Some (Max (set (Object_keys (AVAILABLE_FIRMWARE mandatory_state))))"
    by (rule latestVersion_of_Max) (simp add: mandatory_state_def)
  then show ?thesis
    by (simp add: mandatory_state_def Object_keys_set)
qed

lemma check_of_simps [simp]:
  "q_device (check_of d v) = Some d" "q_version (check_of d v) = Some v"
  "q_rssi (check_of d v) = None"
  by (simp_all add: check_of_def)

lemma example_check_update:
  "fst (firmware_check example_env example_headers (check_of ''D1'' ''2.2.0'') initial_state)
   = Json 200
       [(''update_available'', JBool True),
        (''latest_version'', JStr ''2.3.0''),
        (''download_url'', JStr ''http://ota.example/api/v1/firmware/download/2.3.0''),
        (''checksum'', JStr ''d41d8cd98f00b204e9800998ecf8427e''),
        (''mandatory'', JBool False),
        (''changelog'', JStr ''Updated version''),
        (''file_size'', JNum (Fin 0))]"
proof -
  have i: "map_of (AVAILABLE_FIRMWARE initial_state) ''2.3.0''
      = Some \<lparr>filename = ''sketch_feb14a_v2_3.ino.bin'', release_date = ''2026-02-14'',
               changelog = ''Updated version'', mandatory = False\<rparr>"
    by (simp add: initial_state_def initial_firmware_def)
  show ?thesis
    by (simp add: firmware_check_def Let_def latest_of_initial_state i example_env_def
        example_headers_def calculateMd5_def getFileSize_def update_body_def or_else_def)
qed

theorem check_decision_is_string_comparison_witness:
  "json_field ''update_available''
     (fst (firmware_check example_env example_headers (check_of ''D1'' ''9.0.0'')
             initial_state_s3)) = Some (JBool False)
   \<and> json_field ''update_available''
     (fst (firmware_check example_env example_headers (check_of ''D1'' ''2.2.0'')
             initial_state)) = Some (JBool True)"
proof -
  have a: "truthy (q_device (check_of ''D1'' ''9.0.0''))"
    and b: "q_version (check_of ''D1'' ''9.0.0'') = Some ''9.0.0''"
    and c: "''9.0.0'' \<noteq> []" by simp_all
  have a': "truthy (q_device (check_of ''D1'' ''2.2.0''))"
    and b': "q_version (check_of ''D1'' ''2.2.0'') = Some ''2.2.0''"
    and c': "''2.2.0'' \<noteq> []" by simp_all
  have lt: "(''2.2.0'' :: string) < ''2.3.0''" and nlt: "\<not> (''9.0.0'' :: string) < ''3.1.0''"
    by simp_all
  have ok: "status_of (fst (firmware_check example_env example_headers
      (check_of ''D1'' ''2.2.0'') initial_state)) = 200"
    by (simp only: example_check_update status_of.simps)
  show ?thesis
    using check_decision_is_string_comparison
            [OF a b c latest_of_initial_state_s3, of example_env example_headers]
          check_decision_is_string_comparison
            [OF a' b' c' latest_of_initial_state, of example_env example_headers]
          lt nlt ok
    by blast
qed

text \<open>
  Claim C5. When the reported version is not less than the latest one, the response is
  exactly \<^verbatim>\<open>{update_available: false, latest_version, download_url: "", checksum: "",
  mandatory: false}\<close>, whatever the mandatory flag of the latest release, and the handler
  makes no call to the blob store: no existence check, no read for the checksum, no size
  query.
\<close>

theorem up_to_date_response_exact:
  assumes "truthy (q_device q)" and "q_version q = Some version" and "version \<noteq> []"
    and "latestVersion_of (AVAILABLE_FIRMWARE st) = Some latestVersion"
    and "\<not> version < latestVersion"
  shows "fst (firmware_check e h q st) =
           Json 200 [(''update_available'', JBool False),
                     (''latest_version'', JStr latestVersion),
                     (''download_url'', JStr []),
                     (''checksum'', JStr []),
                     (''mandatory'', JBool False)]
       \<and> snd (snd (firmware_check e h q st)) = []"
proof -
  have v: "truthy (q_version q)" "template (q_version q) = version"
    using assms(2,3) by simp_all
  have "\<not> needsUpdate_of (template (q_version q)) (latestVersion_of (AVAILABLE_FIRMWARE st))"
    using v assms(4,5) by simp
  from firmware_check_up_to_date [OF assms(1) v(1) this, of e h]
  show ?thesis using assms(4) by (simp add: up_to_date_body_def)
qed

theorem up_to_date_response_exact_witness:
  "map_option mandatory (map_of (AVAILABLE_FIRMWARE mandatory_state) ''2.3.0'') = Some True
   \<and> fst (firmware_check example_env example_headers (check_of ''D1'' ''2.3.0'')
            mandatory_state) =
        Json 200 [(''update_available'', JBool False),
                  (''latest_version'', JStr ''2.3.0''),
                  (''download_url'', JStr []),
                  (''checksum'', JStr []),
                  (''mandatory'', JBool False)]
   \<and> snd (snd (firmware_check example_env example_headers (check_of ''D1'' ''2.3.0'')
                  mandatory_state)) = []"
proof -
  have a: "truthy (q_device (check_of ''D1'' ''2.3.0''))"
    and b: "q_version (check_of ''D1'' ''2.3.0'') = Some ''2.3.0''"
    and c: "''2.3.0'' \<noteq> []"
    and d: "\<not> (''2.3.0'' :: string) < ''2.3.0''" by simp_all
  have m: "map_option mandatory (map_of (AVAILABLE_FIRMWARE mandatory_state) ''2.3.0'')
      = Some True"
    by (simp add: mandatory_state_def)
  show ?thesis
    using up_to_date_response_exact
            [OF a b c latest_of_mandatory_state d, of example_env example_headers] m
    by simp
qed

lemma map_of_set_property_same:
  "k \<noteq> ''__proto__'' \<Longrightarrow> map_of (set_property obj k v) k = Some v"
  by (simp add: set_property_def update_conv')

lemma map_of_set_property_other:
  "k' \<noteq> k \<Longrightarrow> map_of (set_property obj k v) k' = map_of obj k'"
  by (simp add: set_property_def update_conv')

lemma firmware_check_state:
  "truthy (q_device q) \<Longrightarrow> truthy (q_version q) \<Longrightarrow>
   fst (snd (firmware_check e h q st)) = store_device_info e q st"
  by (simp add: firmware_check_def Let_def split: option.splits)

lemma firmware_check_s3_state:
  "truthy (q_device q) \<Longrightarrow> truthy (q_version q) \<Longrightarrow>
   fst (snd (firmware_check_s3 e h q st)) = store_device_info e q st"
  by (simp add: firmware_check_s3_def Let_def split: option.splits)

lemma firmware_check_s3_missing:
  "\<not> (truthy (q_device q) \<and> truthy (q_version q)) \<Longrightarrow>
   firmware_check_s3 e h q st =
     (Json 400 [(''detail'', JStr ''Missing device or version parameter'')], st, [])"
  by (auto simp: firmware_check_s3_def)

text \<open>
  Claim C7, as amended. The device record is written after the parameter guard. A check
  request with device and version present (and a device identifier other than
  \<^verbatim>\<open>__proto__\<close>) leaves, whatever the outcome of the rest of the call and in both variants,
  the record of that device holding the current timestamp, the reported version, and the
  parsed signal strength if one was given (\<^verbatim>\<open>null\<close> otherwise). A request that lacks the
  device or the version is answered 400 and records nothing.
\<close>

theorem check_records_device_after_parameter_guard:
  "(truthy (q_device q) \<and> truthy (q_version q) \<and> template (q_device q) \<noteq> ''__proto__'' \<longrightarrow>
      map_of (devicesDb (fst (snd (firmware_check e h q st)))) (template (q_device q))
        = Some \<lparr>last_check = now e,
                 current_version = template (q_version q),
                 rssi = (if truthy (q_rssi q) then Some (parseInt e (template (q_rssi q)))
                         else None)\<rparr>
      \<and> map_of (devicesDb (fst (snd (firmware_check_s3 e h q st)))) (template (q_device q))
        = Some \<lparr>last_check = now e,
                 current_version = template (q_version q),
                 rssi = (if truthy (q_rssi q) then Some (parseInt e (template (q_rssi q)))
                         else None)\<rparr>)
   \<and> (\<not> (truthy (q_device q) \<and> truthy (q_version q)) \<longrightarrow>
        status_of (fst (firmware_check e h q st)) = 400
        \<and> fst (snd (firmware_check e h q st)) = st
        \<and> status_of (fst (firmware_check_s3 e h q st)) = 400
        \<and> fst (snd (firmware_check_s3 e h q st)) = st)"
proof (intro conjI impI)
  assume a: "truthy (q_device q) \<and> truthy (q_version q)
      \<and> template (q_device q) \<noteq> ''__proto__''"
  have s: "map_of (devicesDb (store_device_info e q st)) (template (q_device q))
      = Some \<lparr>last_check = now e,
               current_version = template (q_version q),
               rssi = (if truthy (q_rssi q) then Some (parseInt e (template (q_rssi q)))
                       else None)\<rparr>"
    using a by (simp add: store_device_info_def map_of_set_property_same)
  show "map_of (devicesDb (fst (snd (firmware_check e h q st)))) (template (q_device q))
        = Some \<lparr>last_check = now e,
                 current_version = template (q_version q),
                 rssi = (if truthy (q_rssi q) then Some (parseInt e (template (q_rssi q)))
                         else None)\<rparr>"
    using a s by (simp only: firmware_check_state)
  show "map_of (devicesDb (fst (snd (firmware_check_s3 e h q st)))) (template (q_device q))
        = Some \<lparr>last_check = now e,
                 current_version = template (q_version q),
                 rssi = (if truthy (q_rssi q) then Some (parseInt e (template (q_rssi q)))
                         else None)\<rparr>"
    using a s by (simp only: firmware_check_s3_state)
next
  assume m: "\<not> (truthy (q_device q) \<and> truthy (q_version q))"
  show "status_of (fst (firmware_check e h q st)) = 400"
    and "fst (snd (firmware_check e h q st)) = st"
    by (simp_all add: firmware_check_missing [OF m])
  show "status_of (fst (firmware_check_s3 e h q st)) = 400"
    and "fst (snd (firmware_check_s3 e h q st)) = st"
    by (simp_all add: firmware_check_s3_missing [OF m])
qed

lemma example_check_artifact_missing:
  "fst (firmware_check missing_blob_env example_headers rssi_check initial_state)
     = Json 404 [(''detail'', JStr ''Firmware file not found'')]"
proof -
  have i: "map_of (AVAILABLE_FIRMWARE initial_state) ''2.3.0''
      = Some \<lparr>filename = ''sketch_feb14a_v2_3.ino.bin'', release_date = ''2026-02-14'',
               changelog = ''Updated version'', mandatory = False\<rparr>"
    by (simp add: initial_state_def initial_firmware_def)
  show ?thesis
    by (simp add: firmware_check_def Let_def latest_of_initial_state i missing_blob_env_def
        example_env_def rssi_check_def)
qed

theorem check_records_device_after_parameter_guard_witness:
  "fst (firmware_check missing_blob_env example_headers rssi_check initial_state)
     = Json 404 [(''detail'', JStr ''Firmware file not found'')]
   \<and> map_of (devicesDb (fst (snd (firmware_check missing_blob_env example_headers rssi_check
                                      initial_state)))) ''D1''
     = Some \<lparr>last_check = ''2026-03-01T10:20:30.000Z'', current_version = ''2.2.0'',
              rssi = Some (Fin (- 70))\<rparr>
   \<and> status_of (fst (firmware_check example_env example_headers versionless_check
                       initial_state)) = 400
   \<and> fst (snd (firmware_check example_env example_headers versionless_check initial_state))
     = initial_state"
proof -
  have a: "truthy (q_device rssi_check) \<and> truthy (q_version rssi_check)
      \<and> template (q_device rssi_check) \<noteq> ''__proto__''"
    by (simp add: rssi_check_def)
  have b: "\<not> (truthy (q_device versionless_check) \<and> truthy (q_version versionless_check))"
    by (simp add: versionless_check_def)
  have c: "template (q_device rssi_check) = ''D1''"
    "template (q_version rssi_check) = ''2.2.0''"
    "truthy (q_rssi rssi_check)"
    "parseInt missing_blob_env (template (q_rssi rssi_check)) = Fin (- 70)"
    "now missing_blob_env = ''2026-03-01T10:20:30.000Z''"
    by (simp_all add: rssi_check_def missing_blob_env_def example_env_def)
  show ?thesis
    using check_records_device_after_parameter_guard
            [of rssi_check missing_blob_env example_headers initial_state]
          check_records_device_after_parameter_guard
            [of versionless_check example_env example_headers initial_state]
          a b c example_check_artifact_missing
    by simp
qed

text \<open>
  Claim C7 as stated fails: a request that names the device but no version is answered
  400, and no record for the device is stored.
\<close>

theorem check_without_version_records_nothing:
  "status_of (fst (firmware_check example_env example_headers versionless_check
                     initial_state)) = 400
   \<and> q_device versionless_check = Some ''D1''
   \<and> map_of (devicesDb (fst (snd (firmware_check example_env example_headers
                                      versionless_check initial_state)))) ''D1'' = None"
  by (simp add: firmware_check_def versionless_check_def initial_state_def)

section \<open>Properties of the release endpoint and of the blob-store failures\<close>

lemma get_property_Absent_iff:
  "get_property obj k = Absent \<longleftrightarrow> map_of obj k = None \<and> k \<notin> set Object_prototype_names"
  by (simp add: get_property_def split: option.splits)

lemma get_property_Own_iff: "get_property obj k = Own v \<longleftrightarrow> map_of obj k = Some v"
  by (simp add: get_property_def split: option.splits)

lemma key_iff_map_of: "k \<in> set (Object_keys obj) \<longleftrightarrow> map_of obj k \<noteq> None"
  by (simp add: Object_keys_set map_of_eq_None_iff)

lemma get_property_Absent_not_key:
  "get_property obj k = Absent \<Longrightarrow> k \<notin> set (Object_keys obj)"
  by (simp add: get_property_Absent_iff key_iff_map_of)

lemma proto_is_inherited_name: "''__proto__'' \<in> set Object_prototype_names"
  by (simp add: Object_prototype_names_def)

lemma get_property_Absent_not_proto: "get_property obj k = Absent \<Longrightarrow> k \<noteq> ''__proto__''"
  using proto_is_inherited_name by (auto simp: get_property_Absent_iff)

text \<open>The four outcomes of a release, in the order of the checks.\<close>

lemma firmware_release_missing:
  "\<not> (truthy (b_version b) \<and> truthy (b_filename b) \<and> truthy (b_changelog b)) \<Longrightarrow>
   firmware_release e b st = (Json 400 [(''detail'', JStr ''Missing required fields'')], st, [])"
  by (auto simp: firmware_release_def)

lemma firmware_release_duplicate:
  "truthy (b_version b) \<Longrightarrow> truthy (b_filename b) \<Longrightarrow> truthy (b_changelog b) \<Longrightarrow>
   get_property (AVAILABLE_FIRMWARE st) (template (b_version b)) \<noteq> Absent \<Longrightarrow>
   firmware_release e b st = (Json 400 [(''detail'', JStr ''Version already exists'')], st, [])"
  by (simp add: firmware_release_def)

lemma firmware_release_artifact_missing:
  "truthy (b_version b) \<Longrightarrow> truthy (b_filename b) \<Longrightarrow> truthy (b_changelog b) \<Longrightarrow>
   get_property (AVAILABLE_FIRMWARE st) (template (b_version b)) = Absent \<Longrightarrow>
   \<not> existsSync e (path_join e (FIRMWARE_DIR e) (template (b_filename b))) \<Longrightarrow>
   firmware_release e b st =
     (Json 404 [(''detail'', JStr ''Firmware file not found'')], st,
      [ExistsSync (path_join e (FIRMWARE_DIR e) (template (b_filename b)))])"
  by (simp add: firmware_release_def Let_def)


lemma firmware_release_s3_missing:
  "\<not> (truthy (b_version b) \<and> truthy (b_filename b) \<and> truthy (b_changelog b)) \<Longrightarrow>
   firmware_release_s3 e b st =
     (Json 400 [(''detail'', JStr ''Missing required fields'')], st, [])"
  by (auto simp: firmware_release_s3_def)

lemma firmware_release_s3_duplicate:
  "truthy (b_version b) \<Longrightarrow> truthy (b_filename b) \<Longrightarrow> truthy (b_changelog b) \<Longrightarrow>
   get_property (AVAILABLE_FIRMWARE st) (template (b_version b)) \<noteq> Absent \<Longrightarrow>
   firmware_release_s3 e b st =
     (Json 400 [(''detail'', JStr ''Version already exists'')], st, [])"
  by (simp add: firmware_release_s3_def)

lemma firmware_release_s3_artifact_missing:
  "truthy (b_version b) \<Longrightarrow> truthy (b_filename b) \<Longrightarrow> truthy (b_changelog b) \<Longrightarrow>
   get_property (AVAILABLE_FIRMWARE st) (template (b_version b)) = Absent \<Longrightarrow>
   \<not> m_exists (checkS3File e (template (b_filename b))) \<Longrightarrow>
   firmware_release_s3 e b st =
     (Json 404 [(''detail'', JStr ''Firmware file not found in S3'')], st,
      [HttpsHead (getS3Url (template (b_filename b)))])"
  by (simp add: firmware_release_s3_def Let_def)


text \<open>A release that is not accepted returns the state it was given.\<close>

lemma firmware_release_cases:
  "(status_of (fst (firmware_release e b st)) \<in> {400, 404}
      \<and> fst (snd (firmware_release e b st)) = st)
   \<or> (status_of (fst (firmware_release e b st)) = 200
      \<and> get_property (AVAILABLE_FIRMWARE st) (template (b_version b)) = Absent
      \<and> fst (snd (firmware_release e b st)) =
          st\<lparr>AVAILABLE_FIRMWARE :=
               set_property (AVAILABLE_FIRMWARE st) (template (b_version b))
                 (new_release e b)\<rparr>)"
  by (simp add: firmware_release_def Let_def)

lemma firmware_release_s3_cases:
  "(status_of (fst (firmware_release_s3 e b st)) \<in> {400, 404}
      \<and> fst (snd (firmware_release_s3 e b st)) = st)
   \<or> (status_of (fst (firmware_release_s3 e b st)) = 200
      \<and> get_property (AVAILABLE_FIRMWARE st) (template (b_version b)) = Absent
      \<and> fst (snd (firmware_release_s3 e b st)) =
          st\<lparr>AVAILABLE_FIRMWARE :=
               set_property (AVAILABLE_FIRMWARE st) (template (b_version b))
                 (new_release e b)\<rparr>)"
  by (simp add: firmware_release_s3_def Let_def)

lemma release_of_simps [simp]:
  "b_version (release_of v f) = Some v" "b_filename (release_of v f) = Some f"
  "b_changelog (release_of v f) = Some ''notes''" "b_mandatory (release_of v f) = None"
  by (simp_all add: release_of_def)


lemma new_release_fields:
  assumes "b_filename b = Some fname" and "b_changelog b = Some notes"
  shows "new_release e b =
     \<lparr>filename = fname, release_date = current_date e, changelog = notes,
      mandatory = (b_mandatory b = Some True)\<rparr>"
proof (cases "b_mandatory b")
  case None
  with assms show ?thesis by (simp add: new_release_def)
next
  case (Some m)
  with assms show ?thesis by (cases m) (simp_all add: new_release_def)
qed


text \<open>For a version that is not the name of an inherited property, the three checks of a
  release run in the order documented, and the first that fails decides the response.\<close>

lemma release_validation_order:
  assumes "template (b_version b) \<notin> set Object_prototype_names"
  shows "fst (firmware_release e b st) =
     (if \<not> (truthy (b_version b) \<and> truthy (b_filename b) \<and> truthy (b_changelog b))
      then Json 400 [(''detail'', JStr ''Missing required fields'')]
      else if template (b_version b) \<in> set (Object_keys (AVAILABLE_FIRMWARE st))
      then Json 400 [(''detail'', JStr ''Version already exists'')]
      else if \<not> existsSync e (path_join e (FIRMWARE_DIR e) (template (b_filename b)))
      then Json 404 [(''detail'', JStr ''Firmware file not found'')]
      else Json 200
             [(''status'', JStr ''success''),
              (''message'', JStr (''Firmware v'' @ template (b_version b) @ '' released'')),
              (''version'', JStr (template (b_version b)))])"
proof -
  have "get_property (AVAILABLE_FIRMWARE st) (template (b_version b)) = Absent
      \<longleftrightarrow> template (b_version b) \<notin> set (Object_keys (AVAILABLE_FIRMWARE st))"
    using assms by (simp add: get_property_Absent_iff key_iff_map_of)
  then show ?thesis
    by (simp add: firmware_release_def Let_def)
qed

text \<open>
  Claim C3 at the input where the code departs from it. The version \<^verbatim>\<open>constructor\<close> is not
  a key of the catalog and the file named exists, so the three checks of the claim all pass;
  the handler nevertheless answers 400 \<^verbatim>\<open>Version already exists\<close>, because
  \<^verbatim>\<open>AVAILABLE_FIRMWARE[version]\<close> finds the property every object inherits.
\<close>

theorem release_of_inherited_name_answered_duplicate:
  "''constructor'' \<notin> set (Object_keys (AVAILABLE_FIRMWARE initial_state))
   \<and> existsSync example_env (path_join example_env (FIRMWARE_DIR example_env) ''new.bin'')
   \<and> firmware_release example_env (release_of ''constructor'' ''new.bin'') initial_state
     = (Json 400 [(''detail'', JStr ''Version already exists'')], initial_state, [])"
proof -
  have k: "''constructor'' \<notin> set (Object_keys (AVAILABLE_FIRMWARE initial_state))"
    by (simp add: initial_state_def initial_firmware_def Object_keys_set)
  have x: "existsSync example_env (path_join example_env (FIRMWARE_DIR example_env) ''new.bin'')"
    by (simp add: example_env_def)
  have "get_property (AVAILABLE_FIRMWARE initial_state) ''constructor'' = Inherited"
    by (simp add: get_property_def initial_state_def initial_firmware_def
        Object_prototype_names_def)
  then have "firmware_release example_env (release_of ''constructor'' ''new.bin'') initial_state
     = (Json 400 [(''detail'', JStr ''Version already exists'')], initial_state, [])"
    by (simp add: firmware_release_def)
  with k x show ?thesis by simp
qed

text \<open>
  Claim C4, as amended. A release request that is not accepted leaves the whole state, the
  catalog included, exactly as it was, in both variants; after the not-found answer
  (ArtifactMissing) the attempted version is not a key of the catalog.
\<close>

theorem failed_release_leaves_state_unchanged:
  "(status_of (fst (firmware_release e b st)) \<noteq> 200 \<longrightarrow>
      fst (snd (firmware_release e b st)) = st)
   \<and> (status_of (fst (firmware_release_s3 e b st)) \<noteq> 200 \<longrightarrow>
      fst (snd (firmware_release_s3 e b st)) = st)
   \<and> (status_of (fst (firmware_release e b st)) = 404 \<longrightarrow>
      template (b_version b)
        \<notin> set (Object_keys (AVAILABLE_FIRMWARE (fst (snd (firmware_release e b st))))))
   \<and> (status_of (fst (firmware_release_s3 e b st)) = 404 \<longrightarrow>
      template (b_version b)
        \<notin> set (Object_keys (AVAILABLE_FIRMWARE (fst (snd (firmware_release_s3 e b st))))))"
proof (intro conjI impI)
  assume "status_of (fst (firmware_release e b st)) \<noteq> 200"
  then show "fst (snd (firmware_release e b st)) = st"
    using firmware_release_cases [of e b st] by auto
next
  assume "status_of (fst (firmware_release_s3 e b st)) \<noteq> 200"
  then show "fst (snd (firmware_release_s3 e b st)) = st"
    using firmware_release_s3_cases [of e b st] by auto
next
  assume a: "status_of (fst (firmware_release e b st)) = 404"
  then have "fst (snd (firmware_release e b st)) = st"
    using firmware_release_cases [of e b st] by auto
  moreover have "get_property (AVAILABLE_FIRMWARE st) (template (b_version b)) = Absent"
    using a by (simp add: firmware_release_def Let_def split: if_splits)
  ultimately show "template (b_version b)
        \<notin> set (Object_keys (AVAILABLE_FIRMWARE (fst (snd (firmware_release e b st)))))"
    by (simp add: get_property_Absent_not_key)
next
  assume a: "status_of (fst (firmware_release_s3 e b st)) = 404"
  then have "fst (snd (firmware_release_s3 e b st)) = st"
    using firmware_release_s3_cases [of e b st] by auto
  moreover have "get_property (AVAILABLE_FIRMWARE st) (template (b_version b)) = Absent"
    using a by (simp add: firmware_release_s3_def Let_def split: if_splits)
  ultimately show "template (b_version b)
        \<notin> set (Object_keys (AVAILABLE_FIRMWARE (fst (snd (firmware_release_s3 e b st)))))"
    by (simp add: get_property_Absent_not_key)
qed

lemma example_release_artifact_missing:
  "fst (firmware_release missing_blob_env (release_of ''3.0.0'' ''new.bin'') initial_state)
     = Json 404 [(''detail'', JStr ''Firmware file not found'')]"
proof -
  have "get_property (AVAILABLE_FIRMWARE initial_state) ''3.0.0'' = Absent"
    by (simp add: get_property_def initial_state_def initial_firmware_def
        Object_prototype_names_def)
  then show ?thesis
    by (simp add: firmware_release_def Let_def missing_blob_env_def example_env_def)
qed

lemma example_release_s3_artifact_missing:
  "fst (firmware_release_s3 missing_blob_env (release_of ''3.0.0'' ''new.bin'') initial_state)
     = Json 404 [(''detail'', JStr ''Firmware file not found in S3'')]"
proof -
  have "get_property (AVAILABLE_FIRMWARE initial_state) ''3.0.0'' = Absent"
    by (simp add: get_property_def initial_state_def initial_firmware_def
        Object_prototype_names_def)
  moreover have "\<not> m_exists (checkS3File missing_blob_env ''new.bin'')"
    by (simp add: checkS3File_def missing_blob_env_def)
  ultimately show ?thesis
    by (simp add: firmware_release_s3_def Let_def)
qed

theorem failed_release_leaves_state_unchanged_witness:
  "status_of (fst (firmware_release missing_blob_env (release_of ''3.0.0'' ''new.bin'')
                     initial_state)) = 404
   \<and> fst (snd (firmware_release missing_blob_env (release_of ''3.0.0'' ''new.bin'')
                  initial_state)) = initial_state
   \<and> ''3.0.0'' \<notin> set (Object_keys (AVAILABLE_FIRMWARE
         (fst (snd (firmware_release missing_blob_env (release_of ''3.0.0'' ''new.bin'')
                      initial_state)))))
   \<and> status_of (fst (firmware_release_s3 missing_blob_env (release_of ''3.0.0'' ''new.bin'')
                     initial_state)) = 404
   \<and> fst (snd (firmware_release_s3 missing_blob_env (release_of ''3.0.0'' ''new.bin'')
                  initial_state)) = initial_state"
proof -
  have a: "status_of (fst (firmware_release missing_blob_env (release_of ''3.0.0'' ''new.bin'')
                     initial_state)) = 404"
    by (simp only: example_release_artifact_missing status_of.simps)
  have b: "status_of (fst (firmware_release_s3 missing_blob_env
      (release_of ''3.0.0'' ''new.bin'') initial_state)) = 404"
    by (simp only: example_release_s3_artifact_missing status_of.simps)
  have a': "status_of (fst (firmware_release missing_blob_env
      (release_of ''3.0.0'' ''new.bin'') initial_state)) \<noteq> 200"
    by (simp add: a)
  have b': "status_of (fst (firmware_release_s3 missing_blob_env
      (release_of ''3.0.0'' ''new.bin'') initial_state)) \<noteq> 200"
    by (simp add: b)
  have t: "template (b_version (release_of ''3.0.0'' ''new.bin'')) = ''3.0.0''" by simp
  show ?thesis
    using failed_release_leaves_state_unchanged
            [of missing_blob_env "release_of ''3.0.0'' ''new.bin''" initial_state] a b a' b'
    unfolding t by blast
qed

text \<open>
  Claim C4 as stated fails in its last clause: a release rejected as a duplicate leaves
  the attempted version a key of the catalog, as it was before.
\<close>

theorem duplicate_release_version_remains_key:
  "status_of (fst (firmware_release example_env (release_of ''2.2.0'' ''new.bin'')
                     initial_state)) = 400
   \<and> ''2.2.0'' \<in> set (Object_keys (AVAILABLE_FIRMWARE
         (fst (snd (firmware_release example_env (release_of ''2.2.0'' ''new.bin'')
                      initial_state)))))"
proof -
  have "get_property (AVAILABLE_FIRMWARE initial_state) ''2.2.0'' \<noteq> Absent"
    by (simp add: get_property_def initial_state_def initial_firmware_def)
  then have "firmware_release example_env (release_of ''2.2.0'' ''new.bin'') initial_state
     = (Json 400 [(''detail'', JStr ''Version already exists'')], initial_state, [])"
    by (simp add: firmware_release_def)
  moreover have "''2.2.0'' \<in> set (Object_keys (AVAILABLE_FIRMWARE initial_state))"
    by (simp add: initial_state_def initial_firmware_def Object_keys_set)
  ultimately show ?thesis by simp
qed



lemma mandatory_release_absent:
  "get_property (AVAILABLE_FIRMWARE initial_state) ''3.0.0'' = Absent"
  by (simp add: get_property_def initial_state_def initial_firmware_def
      Object_prototype_names_def)



text \<open>A release once in the catalog stays as it is under every request.\<close>

lemma guarded_cases:
  "guarded h st r = r \<or> (\<exists>x. guarded h st r = (x, st, []))"
  by (simp add: guarded_def split: auth.splits)

lemma firmware_download_state: "fst (snd (firmware_download e v st)) = st"
  by (simp add: firmware_download_def Let_def split: property.splits option.splits)

lemma firmware_release_keeps_release:
  assumes "map_of (AVAILABLE_FIRMWARE st) v = Some r"
  shows "map_of (AVAILABLE_FIRMWARE (fst (snd (firmware_release e b st)))) v = Some r"
proof -
  from firmware_release_cases [of e b st]
  consider "fst (snd (firmware_release e b st)) = st"
    | "get_property (AVAILABLE_FIRMWARE st) (template (b_version b)) = Absent"
      "fst (snd (firmware_release e b st)) =
          st\<lparr>AVAILABLE_FIRMWARE :=
               set_property (AVAILABLE_FIRMWARE st) (template (b_version b))
                 (new_release e b)\<rparr>"
    by blast
  then show ?thesis
  proof cases
    case 1
    with assms show ?thesis by simp
  next
    case 2
    from 2(1) assms have "v \<noteq> template (b_version b)"
      by (auto simp: get_property_Absent_iff)
    with 2(2) assms show ?thesis by (simp add: map_of_set_property_other)
  qed
qed

lemma serve_keeps_release:
  assumes "map_of (AVAILABLE_FIRMWARE st) v = Some r"
  shows "map_of (AVAILABLE_FIRMWARE (fst (snd (serve e req st)))) v = Some r"
proof (cases req)
  case GetRoot
  with assms show ?thesis by (simp add: root_info_def)
next
  case GetHealth
  with assms show ?thesis by (simp add: health_def)
next
  case (GetCheck h q)
  with assms guarded_cases [of h st "firmware_check e h q st"] show ?thesis
    by (auto simp: firmware_check_catalog)
next
  case (GetDownload h ver)
  with assms guarded_cases [of h st "firmware_download e ver st"] show ?thesis
    by (auto simp: firmware_download_state)
next
  case (GetDevices h)
  with assms guarded_cases [of h st "admin_devices st"] show ?thesis
    by (auto simp: admin_devices_def)
next
  case (PostRelease h b)
  with assms guarded_cases [of h st "firmware_release e b st"] show ?thesis
    by (auto simp: firmware_release_keeps_release)
qed

lemma run_keeps_release:
  "map_of (AVAILABLE_FIRMWARE st) v = Some r \<Longrightarrow>
   map_of (AVAILABLE_FIRMWARE (run reqs st)) v = Some r"
proof (induction reqs arbitrary: st)
  case Nil
  then show ?case by simp
next
  case (Cons er reqs)
  obtain e req where er: "er = (e, req)" by (cases er)
  have "map_of (AVAILABLE_FIRMWARE (fst (snd (serve e req st)))) v = Some r"
    using Cons.prems by (rule serve_keeps_release)
  then show ?case using Cons.IH er by simp
qed

lemma firmware_release_accepted_fields:
  assumes "status_of (fst (firmware_release e b st)) = 200"
  shows "truthy (b_version b) \<and> truthy (b_filename b) \<and> truthy (b_changelog b)"
  using assms by (auto simp: firmware_release_def split: if_splits)

text \<open>
  Claim C6. When a release is accepted, its version was not a key of the catalog before;
  reading \<^verbatim>\<open>AVAILABLE_FIRMWARE[version]\<close> afterwards returns the record published: the
  file name and the change log of the request, and the mandatory flag of the request (true
  exactly when the body says true). It returns the same record after any further sequence
  of requests to the server.
\<close>

theorem published_release_is_read_back_unchanged:
  assumes "status_of (fst (firmware_release e b st)) = 200"
  shows "\<exists>version fname notes.
       b_version b = Some version \<and> b_filename b = Some fname \<and> b_changelog b = Some notes
       \<and> version \<notin> set (Object_keys (AVAILABLE_FIRMWARE st))
       \<and> get_property (AVAILABLE_FIRMWARE (fst (snd (firmware_release e b st)))) version
           = Own \<lparr>filename = fname, release_date = current_date e, changelog = notes,
                   mandatory = (b_mandatory b = Some True)\<rparr>
       \<and> get_property (AVAILABLE_FIRMWARE (run reqs (fst (snd (firmware_release e b st)))))
             version
           = Own \<lparr>filename = fname, release_date = current_date e, changelog = notes,
                   mandatory = (b_mandatory b = Some True)\<rparr>"
proof -
  let ?v = "template (b_version b)"
  let ?st' = "fst (snd (firmware_release e b st))"
  let ?r = "\<lparr>filename = template (b_filename b), release_date = current_date e,
             changelog = template (b_changelog b),
             mandatory = (b_mandatory b = Some True)\<rparr>"
  from firmware_release_accepted_fields [OF assms]
  have bv: "b_version b = Some ?v" and bf: "b_filename b = Some (template (b_filename b))"
    and bc: "b_changelog b = Some (template (b_changelog b))"
    by (simp_all add: truthy_template)
  from firmware_release_cases [of e b st] assms
  have a: "get_property (AVAILABLE_FIRMWARE st) ?v = Absent"
    and s: "?st' = st\<lparr>AVAILABLE_FIRMWARE :=
               set_property (AVAILABLE_FIRMWARE st) ?v (new_release e b)\<rparr>"
    by auto
  have n: "new_release e b = ?r" using bf bc by (rule new_release_fields)
  have m: "map_of (AVAILABLE_FIRMWARE ?st') ?v = Some ?r"
    using s get_property_Absent_not_proto [OF a]
    by (simp add: map_of_set_property_same n)
  have k: "?v \<notin> set (Object_keys (AVAILABLE_FIRMWARE st))"
    using a by (rule get_property_Absent_not_key)
  have g1: "get_property (AVAILABLE_FIRMWARE ?st') ?v = Own ?r"
    using m by (simp only: get_property_Own_iff)
  have g2: "get_property (AVAILABLE_FIRMWARE (run reqs ?st')) ?v = Own ?r"
    using run_keeps_release [OF m, of reqs] by (simp only: get_property_Own_iff)
  from bv bf bc k g1 g2 show ?thesis by blast
qed

lemma current_date_example: "current_date example_env = ''2026-03-01''"
  by (simp add: current_date_def example_env_def)

theorem published_release_is_read_back_unchanged_witness:
  "status_of (fst (firmware_release example_env mandatory_release initial_state)) = 200
   \<and> b_mandatory mandatory_release = Some True
   \<and> ''3.0.0'' \<notin> set (Object_keys (AVAILABLE_FIRMWARE initial_state))
   \<and> get_property
       (AVAILABLE_FIRMWARE
          (fst (snd (firmware_release example_env mandatory_release initial_state))))
       ''3.0.0''
     = Own \<lparr>filename = ''new.bin'', release_date = ''2026-03-01'', changelog = ''notes'',
             mandatory = True\<rparr>
   \<and> get_property
       (AVAILABLE_FIRMWARE
          (run later_requests
             (fst (snd (firmware_release example_env mandatory_release initial_state)))))
       ''3.0.0''
     = Own \<lparr>filename = ''new.bin'', release_date = ''2026-03-01'', changelog = ''notes'',
             mandatory = True\<rparr>"
proof -
  have ok: "status_of (fst (firmware_release example_env mandatory_release initial_state))
      = 200"
    using mandatory_release_absent
    by (simp add: firmware_release_def Let_def example_env_def mandatory_release_def)
  from published_release_is_read_back_unchanged [OF ok, of later_requests]
  obtain version fname logtext where
    f: "b_version mandatory_release = Some version" "b_filename mandatory_release = Some fname"
      "b_changelog mandatory_release = Some logtext"
    and k: "version \<notin> set (Object_keys (AVAILABLE_FIRMWARE initial_state))"
    and g1: "get_property
       (AVAILABLE_FIRMWARE
          (fst (snd (firmware_release example_env mandatory_release initial_state)))) version
       = Own \<lparr>filename = fname, release_date = current_date example_env, changelog = logtext,
               mandatory = (b_mandatory mandatory_release = Some True)\<rparr>"
    and g2: "get_property
       (AVAILABLE_FIRMWARE
          (run later_requests
             (fst (snd (firmware_release example_env mandatory_release initial_state)))))
       version
       = Own \<lparr>filename = fname, release_date = current_date example_env, changelog = logtext,
               mandatory = (b_mandatory mandatory_release = Some True)\<rparr>"
    by blast
  have e: "version = ''3.0.0''" "fname = ''new.bin''" "logtext = ''notes''"
    using f by (simp_all add: mandatory_release_def)
  have m: "b_mandatory mandatory_release = Some True" by (simp add: mandatory_release_def)
  show ?thesis
    using ok k g1 g2 unfolding e by (simp add: m current_date_example)
qed

text \<open>
  Claim C9, as amended. For a check that needs an update, each blob-store call is made once.
  A failed checksum computation (an error of the GET request, a status other than 200, an
  error of the response stream; in the local variant an exception of the file read) fails
  the request with status 500. A failed existence check (an error of the HEAD request) is
  reported by \<^verbatim>\<open>checkS3File\<close> as a file that does not exist, and the check and the release
  answer 404.
\<close>

theorem s3_blob_failure_outcomes:
  assumes "truthy (q_device q)" and "q_version q = Some version" and "version \<noteq> []"
    and "latestVersion_of (AVAILABLE_FIRMWARE st) = Some latestVersion"
    and "version < latestVersion"
    and "map_of (AVAILABLE_FIRMWARE st) latestVersion = Some latestInfo"
  shows "(https_head e (getS3Url (filename latestInfo)) = HeadError \<longrightarrow>
            fst (firmware_check_s3 e h q st)
              = Json 404 [(''detail'', JStr ''Firmware file not found'')]
            \<and> snd (snd (firmware_check_s3 e h q st))
              = [HttpsHead (getS3Url (filename latestInfo))])
       \<and> (https_head e (getS3Url (filename latestInfo)) = HeadResponse 200 cl etag
           \<and> https_get e (getS3Url (filename latestInfo)) = GetError \<longrightarrow>
            fst (firmware_check_s3 e h q st)
              = Json 500 [(''detail'', JStr ''Internal server error'')]
            \<and> snd (snd (firmware_check_s3 e h q st))
              = [HttpsHead (getS3Url (filename latestInfo)),
                 HttpsGet (getS3Url (filename latestInfo))])
       \<and> (https_head e (getS3Url (filename latestInfo)) = HeadResponse 200 cl etag
           \<and> https_get e (getS3Url (filename latestInfo)) = GetResponse code chunks ended
           \<and> (code \<noteq> 200 \<or> \<not> ended) \<longrightarrow>
            fst (firmware_check_s3 e h q st)
              = Json 500 [(''detail'', JStr ''Internal server error'')]
            \<and> snd (snd (firmware_check_s3 e h q st))
              = [HttpsHead (getS3Url (filename latestInfo)),
                 HttpsGet (getS3Url (filename latestInfo))])
       \<and> (existsSync e (path_join e (FIRMWARE_DIR e) (filename latestInfo))
           \<and> readFileSync e (path_join e (FIRMWARE_DIR e) (filename latestInfo)) = None \<longrightarrow>
            status_of (fst (firmware_check e h q st)) = 500
            \<and> snd (snd (firmware_check e h q st))
              = [ExistsSync (path_join e (FIRMWARE_DIR e) (filename latestInfo)),
                 ReadFileSync (path_join e (FIRMWARE_DIR e) (filename latestInfo))])
       \<and> (truthy (b_version b) \<and> truthy (b_filename b) \<and> truthy (b_changelog b)
           \<and> get_property (AVAILABLE_FIRMWARE st) (template (b_version b)) = Absent
           \<and> https_head e (getS3Url (template (b_filename b))) = HeadError \<longrightarrow>
            firmware_release_s3 e b st
              = (Json 404 [(''detail'', JStr ''Firmware file not found in S3'')], st,
                 [HttpsHead (getS3Url (template (b_filename b)))]))"
    (is "?head_error \<and> ?get_error \<and> ?get_failed \<and> ?read_failed \<and> ?release_head_error")
proof -
  let ?url = "getS3Url (filename latestInfo)"
  let ?p = "path_join e (FIRMWARE_DIR e) (filename latestInfo)"
  have v: "truthy (q_version q)" "template (q_version q) = version"
    using assms(2,3) by simp_all
  have pre: "\<not> falsy (q_device q)" "\<not> falsy (q_version q)"
    "needsUpdate_of (template (q_version q))
       (latestVersion_of (AVAILABLE_FIRMWARE (store_device_info e q st)))"
    "map_of (AVAILABLE_FIRMWARE (store_device_info e q st))
       (template (latestVersion_of (AVAILABLE_FIRMWARE (store_device_info e q st))))
     = Some latestInfo"
    using assms v by simp_all
  have s3: "firmware_check_s3 e h q st =
      (let metadata = checkS3File e (filename latestInfo) in
       if \<not> m_exists metadata
       then (Json 404 [(''detail'', JStr ''Firmware file not found'')],
             store_device_info e q st, [HttpsHead ?url])
       else (case calculateS3Md5 e (filename latestInfo) of
               None \<Rightarrow>
                 (Json 500 [(''detail'', JStr ''Internal server error'')],
                  store_device_info e q st, [HttpsHead ?url, HttpsGet ?url])
             | Some checksum \<Rightarrow>
                 (Json 200
                    (update_body (latestVersion_of (AVAILABLE_FIRMWARE st)) ?url checksum
                       latestInfo (jv_of_num (m_size metadata))),
                  store_device_info e q st, [HttpsHead ?url, HttpsGet ?url])))"
    using pre by (simp add: firmware_check_s3_def Let_def split: option.splits)
  have c1: "fst (firmware_check_s3 e h q st)
              = Json 404 [(''detail'', JStr ''Firmware file not found'')]
            \<and> snd (snd (firmware_check_s3 e h q st)) = [HttpsHead ?url]"
    if "https_head e ?url = HeadError"
    using that by (simp add: s3 checkS3File_def)
  have c2: "fst (firmware_check_s3 e h q st)
              = Json 500 [(''detail'', JStr ''Internal server error'')]
            \<and> snd (snd (firmware_check_s3 e h q st)) = [HttpsHead ?url, HttpsGet ?url]"
    if "https_head e ?url = HeadResponse 200 cl etag" and "calculateS3Md5 e (filename latestInfo) = None"
    using that by (simp add: s3 checkS3File_def)
  have g1: "calculateS3Md5 e (filename latestInfo) = None" if "https_get e ?url = GetError"
    using that by (simp add: calculateS3Md5_def)
  have g2: "calculateS3Md5 e (filename latestInfo) = None"
    if "https_get e ?url = GetResponse code chunks ended" and "code \<noteq> 200 \<or> \<not> ended"
    using that by (auto simp: calculateS3Md5_def)
  have c4: "status_of (fst (firmware_check e h q st)) = 500
            \<and> snd (snd (firmware_check e h q st)) = [ExistsSync ?p, ReadFileSync ?p]"
    if "existsSync e ?p" and "readFileSync e ?p = None"
    using that pre by (simp add: firmware_check_def Let_def calculateMd5_def)
  have c5: "firmware_release_s3 e b st
              = (Json 404 [(''detail'', JStr ''Firmware file not found in S3'')], st,
                 [HttpsHead (getS3Url (template (b_filename b)))])"
    if "truthy (b_version b)" "truthy (b_filename b)" "truthy (b_changelog b)"
      "get_property (AVAILABLE_FIRMWARE st) (template (b_version b)) = Absent"
      "https_head e (getS3Url (template (b_filename b))) = HeadError"
  proof -
    have "\<not> m_exists (checkS3File e (template (b_filename b)))"
      using that(5) by (simp add: checkS3File_def)
    with that show ?thesis by (simp add: firmware_release_s3_artifact_missing)
  qed
  have t1: ?head_error by (intro impI) (rule c1)
  have t2: ?get_error by (intro impI, elim conjE) (rule c2, assumption, erule g1)
  have t3: ?get_failed by (intro impI, elim conjE) (rule c2, assumption, erule g2, assumption)
  have t4: ?read_failed by (intro impI, elim conjE) (rule c4)
  have t5: ?release_head_error by (intro impI, elim conjE) (rule c5)
  show ?thesis by (intro conjI t1 t2 t3 t4 t5)
qed

lemma latestInfo_of_initial_state_s3:
  "map_of (AVAILABLE_FIRMWARE initial_state_s3) ''3.1.0''
     = Some \<lparr>filename = ''sketch_feb16_3_1.ino.esp32.bin'', release_date = ''2026-02-16'',
              changelog = ''New features and improvements'', mandatory = False\<rparr>"
  by (simp add: initial_state_s3_def initial_firmware_s3_def)

lemma getS3Url_new_bin:
  "getS3Url ''new.bin'' = ''https://esp32--firmware.s3.us-east-1.amazonaws.com/new.bin''"
  by (simp add: getS3Url_def S3_BASE_URL_def S3_BUCKET_def S3_REGION_def)

lemma getS3Url_latest:
  "getS3Url ''sketch_feb16_3_1.ino.esp32.bin''
     = ''https://esp32--firmware.s3.us-east-1.amazonaws.com/sketch_feb16_3_1.ino.esp32.bin''"
  by (simp add: getS3Url_def S3_BASE_URL_def S3_BUCKET_def S3_REGION_def)

theorem s3_blob_failure_outcomes_witness:
  "firmware_check_s3 missing_blob_env example_headers (check_of ''D1'' ''2.2.0'')
       initial_state_s3
     = (Json 404 [(''detail'', JStr ''Firmware file not found'')],
        store_device_info missing_blob_env (check_of ''D1'' ''2.2.0'') initial_state_s3,
        [HttpsHead
           ''https://esp32--firmware.s3.us-east-1.amazonaws.com/sketch_feb16_3_1.ino.esp32.bin''])
   \<and> fst (firmware_check_s3 broken_get_env example_headers (check_of ''D1'' ''2.2.0'')
            initial_state_s3)
     = Json 500 [(''detail'', JStr ''Internal server error'')]
   \<and> snd (snd (firmware_check_s3 broken_get_env example_headers (check_of ''D1'' ''2.2.0'')
                  initial_state_s3))
     = [HttpsHead
          ''https://esp32--firmware.s3.us-east-1.amazonaws.com/sketch_feb16_3_1.ino.esp32.bin'',
        HttpsGet
          ''https://esp32--firmware.s3.us-east-1.amazonaws.com/sketch_feb16_3_1.ino.esp32.bin'']
   \<and> status_of (fst (firmware_check unreadable_env example_headers
                       (check_of ''D1'' ''2.2.0'') initial_state_s3)) = 500
   \<and> firmware_release_s3 missing_blob_env (release_of ''3.2.0'' ''new.bin'') initial_state_s3
     = (Json 404 [(''detail'', JStr ''Firmware file not found in S3'')], initial_state_s3,
        [HttpsHead ''https://esp32--firmware.s3.us-east-1.amazonaws.com/new.bin''])"
proof -
  let ?q = "check_of ''D1'' ''2.2.0''"
  let ?b = "release_of ''3.2.0'' ''new.bin''"
  let ?info = "\<lparr>filename = ''sketch_feb16_3_1.ino.esp32.bin'', release_date = ''2026-02-16'',
              changelog = ''New features and improvements'', mandatory = False\<rparr>"
  have a: "truthy (q_device ?q)" and b: "q_version ?q = Some ''2.2.0''"
    and c: "''2.2.0'' \<noteq> []" and lt: "(''2.2.0'' :: string) < ''3.1.0''"
    by simp_all
  note th = s3_blob_failure_outcomes
      [OF a b c latest_of_initial_state_s3 lt latestInfo_of_initial_state_s3,
       where h = example_headers and b = ?b]
  have f: "filename ?info = ''sketch_feb16_3_1.ino.esp32.bin''" by simp
  have h1: "https_head missing_blob_env (getS3Url (filename ?info)) = HeadError"
    by (simp add: missing_blob_env_def)
  have h2: "https_head broken_get_env (getS3Url (filename ?info))
        = HeadResponse 200 (Some ''1024'') None
      \<and> https_get broken_get_env (getS3Url (filename ?info)) = GetError"
    by (simp add: broken_get_env_def example_env_def)
  have h3: "existsSync unreadable_env
        (path_join unreadable_env (FIRMWARE_DIR unreadable_env) (filename ?info))
      \<and> readFileSync unreadable_env
        (path_join unreadable_env (FIRMWARE_DIR unreadable_env) (filename ?info)) = None"
    by (simp add: unreadable_env_def example_env_def)
  have h4: "truthy (b_version ?b) \<and> truthy (b_filename ?b) \<and> truthy (b_changelog ?b)
      \<and> get_property (AVAILABLE_FIRMWARE initial_state_s3) (template (b_version ?b)) = Absent
      \<and> https_head missing_blob_env (getS3Url (template (b_filename ?b))) = HeadError"
    by (simp add: get_property_def initial_state_s3_def initial_firmware_s3_def
        Object_prototype_names_def missing_blob_env_def)
  note r1 = th [where e = missing_blob_env, THEN conjunct1, THEN mp, OF h1]
  note r2 = th [where e = broken_get_env and cl = "Some ''1024''" and etag = None,
      THEN conjunct2, THEN conjunct1, THEN mp, OF h2]
  note r3 = th [where e = unreadable_env,
      THEN conjunct2, THEN conjunct2, THEN conjunct2, THEN conjunct1, THEN mp, OF h3]
  note r4 = th [where e = missing_blob_env,
      THEN conjunct2, THEN conjunct2, THEN conjunct2, THEN conjunct2, THEN mp, OF h4]
  have s: "fst (snd (firmware_check_s3 missing_blob_env example_headers ?q initial_state_s3))
      = store_device_info missing_blob_env ?q initial_state_s3"
    by (rule firmware_check_s3_state) simp_all
  have "firmware_check_s3 missing_blob_env example_headers ?q initial_state_s3
     = (Json 404 [(''detail'', JStr ''Firmware file not found'')],
        store_device_info missing_blob_env ?q initial_state_s3,
        [HttpsHead (getS3Url (filename ?info))])"
    using r1 s by (simp add: prod_eq_iff)
  then show ?thesis
    using r2 r3 r4 by (simp add: getS3Url_new_bin getS3Url_latest)
qed

text \<open>
  Claim C9 as stated fails: when the HEAD request of the existence check ends in an error,
  the check is answered 404, not 500.
\<close>

theorem s3_head_error_answered_not_found:
  "https_head missing_blob_env (getS3Url ''sketch_feb16_3_1.ino.esp32.bin'') = HeadError
   \<and> fst (firmware_check_s3 missing_blob_env example_headers (check_of ''D1'' ''2.2.0'')
            initial_state_s3)
     = Json 404 [(''detail'', JStr ''Firmware file not found'')]"
proof -
  have m: "\<not> m_exists (checkS3File missing_blob_env ''sketch_feb16_3_1.ino.esp32.bin'')"
    by (simp add: checkS3File_def missing_blob_env_def)
  have "fst (firmware_check_s3 missing_blob_env example_headers (check_of ''D1'' ''2.2.0'')
            initial_state_s3)
     = Json 404 [(''detail'', JStr ''Firmware file not found'')]"
    using m
    by (simp add: firmware_check_s3_def Let_def latest_of_initial_state_s3
        latestInfo_of_initial_state_s3)
  then show ?thesis by (simp add: missing_blob_env_def)
qed

end
